theory Spec2Isabelle
  imports Main
begin

section \<open>JavaScript strings\<close>

text \<open>
  A JavaScript string is a sequence of UTF-16 code units. A code unit is modelled as a
  natural number (the values below 65536 are the real ones); \<open>length\<close>, indexing,
  \<open>trim\<close>, \<open>startsWith\<close>, \<open>includes\<close> and the regular expressions of the source all
  work on code units. ASCII literals are written \<open>str ''...''\<close>; the Korean texts and
  the emoji of the source are written as their code units.
\<close>

type_synonym jstring = "nat list"

definition str :: "string \<Rightarrow> jstring" where
  "str cs = map of_char cs"

text \<open>\<open>WhiteSpace\<close> and \<open>LineTerminator\<close> of ECMAScript: what \<open>String.prototype.trim\<close>
  strips and what \<open>\s\<close> matches.\<close>

definition isSpace :: "nat \<Rightarrow> bool" where
  "isSpace c \<longleftrightarrow>
     c = 0x09 \<or> c = 0x0A \<or> c = 0x0B \<or> c = 0x0C \<or> c = 0x0D \<or> c = 0x20 \<or> c = 0xA0 \<or>
     c = 0x1680 \<or> (0x2000 \<le> c \<and> c \<le> 0x200A) \<or> c = 0x2028 \<or> c = 0x2029 \<or>
     c = 0x202F \<or> c = 0x205F \<or> c = 0x3000 \<or> c = 0xFEFF"

text \<open>\<open>LineTerminator\<close>: what \<open>.\<close> does not match (no \<open>s\<close> flag in the source).\<close>

definition isLineTerminator :: "nat \<Rightarrow> bool" where
  "isLineTerminator c \<longleftrightarrow> c = 0x0A \<or> c = 0x0D \<or> c = 0x2028 \<or> c = 0x2029"

text \<open>\<open>\w\<close> is \<open>[A-Za-z0-9_]\<close>.\<close>

definition isWord :: "nat \<Rightarrow> bool" where
  "isWord c \<longleftrightarrow> (0x41 \<le> c \<and> c \<le> 0x5A) \<or> (0x61 \<le> c \<and> c \<le> 0x7A) \<or>
     (0x30 \<le> c \<and> c \<le> 0x39) \<or> c = 0x5F"

definition trim :: "jstring \<Rightarrow> jstring" where
  "trim s = rev (dropWhile isSpace (rev (dropWhile isSpace s)))"

definition startsWith :: "jstring \<Rightarrow> jstring \<Rightarrow> bool" where
  "startsWith s p \<longleftrightarrow> take (length p) s = p"

text \<open>\<open>s.includes(p)\<close>: \<open>p\<close> occurs in \<open>s\<close> as a contiguous run.\<close>

fun includesStr :: "jstring \<Rightarrow> jstring \<Rightarrow> bool" where
  "includesStr [] p = (p = [])"
| "includesStr (c # s) p = (take (length p) (c # s) = p \<or> includesStr s p)"

text \<open>\<open>xs.join(sep)\<close> on an array of strings.\<close>

fun join :: "jstring \<Rightarrow> jstring list \<Rightarrow> jstring" where
  "join sep [] = []"
| "join sep [x] = x"
| "join sep (x # y # ys) = x @ sep @ join sep (y # ys)"

text \<open>
  \<open>String.prototype.toLowerCase\<close> maps code points through the Unicode case tables of
  the runtime. For the ASCII code units, the Kelvin sign (U+212A, whose lower case is
  \<open>k\<close>) and the white space characters (which have no case) the mapping is unit by
  unit and written out here: \<open>lowerUnit\<close> on the units that are \<open>isPlain\<close>. It is
  applied to the string up to its first other unit. What the table gives from that unit
  on is the parameter \<open>uni\<close>; it gets the whole string, since the mapping of the final
  sigma looks at the units before it.
\<close>

definition lowerUnit :: "nat \<Rightarrow> nat" where
  "lowerUnit c = (if 0x41 \<le> c \<and> c \<le> 0x5A then c + 0x20 else if c = 0x212A then 0x6B else c)"

definition isPlain :: "nat \<Rightarrow> bool" where
  "isPlain c \<longleftrightarrow> c < 0x80 \<or> c = 0x212A \<or> isSpace c"

definition toLowerCase :: "(jstring \<Rightarrow> jstring) \<Rightarrow> jstring \<Rightarrow> jstring" where
  "toLowerCase uni s =
     map lowerUnit (takeWhile isPlain s) @ (if list_all isPlain s then [] else uni s)"

section \<open>Regular expressions\<close>

text \<open>
  The patterns of the source are kept as data and run by a backtracking matcher with
  the priorities of ECMAScript: alternatives left to right, quantifiers greedy. Every
  quantifier of the source stands on a single character class, so \<open>Star\<close>, \<open>Plus\<close>
  take an atom. Every pattern of the source begins with \<open>^\<close> and none has the \<open>m\<close>
  flag, so a match can only start at index 0: \<open>regexMatch\<close> matches at the start.

  Under the \<open>i\<close> flag (no \<open>u\<close> flag) two code units match when their canonical forms
  are equal; the canonical form of a code unit of 128 or more is never an ASCII one, and
  all literals of the source's patterns are ASCII, so \<open>canon\<close> maps \<open>a-z\<close> to \<open>A-Z\<close>
  and leaves the rest.
\<close>

datatype atom = Lit nat | WordChar | SpaceChar | NonSpaceChar | AnyChar | InRanges "(nat \<times> nat) list"

datatype regex =
    Atom atom
  | Seq regex regex
  | Alt regex regex
  | Opt regex
  | Star atom
  | Plus atom
  | Group nat regex

definition canon :: "nat \<Rightarrow> nat" where
  "canon c = (if 0x61 \<le> c \<and> c \<le> 0x7A then c - 0x20 else c)"

fun atomOk :: "bool \<Rightarrow> atom \<Rightarrow> nat \<Rightarrow> bool" where
  "atomOk ic (Lit p) c = (if ic then canon c = canon p else c = p)"
| "atomOk ic WordChar c = isWord c"
| "atomOk ic SpaceChar c = isSpace c"
| "atomOk ic NonSpaceChar c = (\<not> isSpace c)"
| "atomOk ic AnyChar c = (\<not> isLineTerminator c)"
| "atomOk ic (InRanges rs) c = list_ex (\<lambda>(lo, hi). lo \<le> c \<and> c \<le> hi) rs"

text \<open>The remainders a greedy \<open>*\<close> can leave, longest match first.\<close>

fun starRests :: "(nat \<Rightarrow> bool) \<Rightarrow> jstring \<Rightarrow> jstring list" where
  "starRests P [] = [[]]"
| "starRests P (c # s) = (if P c then starRests P s @ [c # s] else [c # s])"

text \<open>A matcher state: the input still to read and the captures so far (latest first).\<close>

type_synonym mstate = "jstring \<times> (nat \<times> jstring) list"

primrec ms :: "regex \<Rightarrow> bool \<Rightarrow> mstate \<Rightarrow> mstate list" where
  "ms (Atom a) ic st =
     (case fst st of [] \<Rightarrow> [] | c # r \<Rightarrow> if atomOk ic a c then [(r, snd st)] else [])"
| "ms (Seq a b) ic st = concat (map (ms b ic) (ms a ic st))"
| "ms (Alt a b) ic st = ms a ic st @ ms b ic st"
| "ms (Opt a) ic st = ms a ic st @ [st]"
| "ms (Star a) ic st = map (\<lambda>r. (r, snd st)) (starRests (atomOk ic a) (fst st))"
| "ms (Plus a) ic st =
     (case fst st of [] \<Rightarrow> []
      | c # r \<Rightarrow> if atomOk ic a c then map (\<lambda>r'. (r', snd st)) (starRests (atomOk ic a) r) else [])"
| "ms (Group n a) ic st =
     map (\<lambda>st'. (fst st', (n, take (length (fst st) - length (fst st')) (fst st)) # snd st'))
       (ms a ic st)"

text \<open>A literal word, a sequence and an alternation of several patterns. \<open>Star (InRanges [])\<close>
  matches the empty string only, \<open>Atom (InRanges [])\<close> nothing.\<close>

fun lits :: "jstring \<Rightarrow> regex" where
  "lits [] = Star (InRanges [])"
| "lits [c] = Atom (Lit c)"
| "lits (c # d # cs) = Seq (Atom (Lit c)) (lits (d # cs))"

fun alts :: "regex list \<Rightarrow> regex" where
  "alts [] = Atom (InRanges [])"
| "alts [r] = r"
| "alts (r # q # rs) = Alt r (alts (q # rs))"

fun seqs :: "regex list \<Rightarrow> regex" where
  "seqs [] = Star (InRanges [])"
| "seqs [r] = r"
| "seqs (r # q # rs) = Seq r (seqs (q # rs))"

record rmatch =
  whole :: jstring
  groups :: "(nat \<times> jstring) list"

text \<open>\<open>s.match(re)\<close> for an anchored pattern without the \<open>g\<close> flag: the first match in
  priority order, \<open>None\<close> for \<open>null\<close>.\<close>

definition regexMatch :: "bool \<Rightarrow> regex \<Rightarrow> jstring \<Rightarrow> rmatch option" where
  "regexMatch ic r s =
     (case ms r ic (s, []) of
        [] \<Rightarrow> None
      | st # _ \<Rightarrow> Some \<lparr>whole = take (length s - length (fst st)) s, groups = snd st\<rparr>)"

definition groupOf :: "rmatch \<Rightarrow> nat \<Rightarrow> jstring" where
  "groupOf m n = (case map_of (groups m) n of Some g \<Rightarrow> g | None \<Rightarrow> [])"

section \<open>The command parser\<close>

text \<open>\<open>isCommand\<close>: \<open>message.trim().startsWith("/")\<close>.\<close>

definition isCommand :: "jstring \<Rightarrow> bool" where
  "isCommand msg = startsWith (trim msg) (str ''/'')"

text \<open>The pattern \<open>/^(\/\w+):?\s*(.*)/\<close> of \<open>parseCommand\<close>.\<close>

definition commandPattern :: regex where
  "commandPattern =
     seqs [Group 1 (Seq (Atom (Lit 0x2F)) (Plus WordChar)),
           Opt (Atom (Lit 0x3A)),
           Star SpaceChar,
           Group 2 (Star AnyChar)]"

record parsed =
  command :: jstring
  args :: jstring

definition parseCommand :: "(jstring \<Rightarrow> jstring) \<Rightarrow> jstring \<Rightarrow> parsed" where
  "parseCommand uni msg =
     (let trimmed = trim msg in
      case regexMatch False commandPattern trimmed of
        Some m \<Rightarrow> \<lparr>command = toLowerCase uni (groupOf m 1), args = trim (groupOf m 2)\<rparr>
      | None \<Rightarrow> \<lparr>command = toLowerCase uni trimmed, args = []\<rparr>)"

section \<open>External collaborators\<close>

text \<open>
  The conversation store, the pairing store, the child process that runs the external
  CLI, the HTTP client and the configuration are outside the modelled files. They are
  fields of an environment; the stores are an abstract state \<open>'st\<close> that the
  collaborators read and update.
\<close>

text \<open>The error of a failed \<open>execAsync\<close>: its \<open>message\<close> and the captured
  \<open>stdout\<close>, each possibly absent.\<close>

record execError =
  errMessage :: "jstring option"
  errStdout :: "jstring option"

text \<open>\<open>ExecOk stdout stderr\<close>, or the rejection of the promise.\<close>

datatype execOutcome = ExecOk jstring jstring | ExecFail execError

datatype role = System | User | Assistant

record conversationMessage =
  role :: role
  content :: jstring

record pairingResult =
  success :: bool
  resultMessage :: jstring

record chatCompletionRequest =
  requestModel :: "jstring option"
  messages :: "conversationMessage list"
  stream :: bool

record fetchRequest =
  url :: jstring
  headers :: "(jstring \<times> jstring) list"
  body :: chatCompletionRequest

text \<open>
  A response of the gateway: \<open>response.ok\<close>, \<open>response.status\<close>, what
  \<open>response.text()\<close> gives and what reading \<open>choices[0]?.message?.content\<close> off
  \<open>response.json()\<close> gives (\<open>None\<close> when it is absent). \<open>Inl e\<close> is an exception
  whose string form \<open>String(error)\<close> is \<open>e\<close>.
\<close>

record fetchResponse =
  ok :: bool
  status :: nat
  bodyText :: "jstring + jstring"
  bodyContent :: "jstring + jstring option"

datatype fetchOutcome = FetchThrows jstring | FetchReturns fetchResponse

record 'st env =
  envLower :: "jstring \<Rightarrow> jstring"
  envExec :: "jstring \<Rightarrow> execOutcome"
  envFetch :: "fetchRequest \<Rightarrow> fetchOutcome"
  envElapsed :: nat
  gatewayUrl :: jstring
  gatewayToken :: "jstring option"
  systemPrompt :: "jstring option"
  model :: "jstring option"
  clearConversationHistory :: "jstring \<Rightarrow> 'st \<Rightarrow> 'st"
  addConversationMessage :: "jstring \<Rightarrow> role \<Rightarrow> jstring \<Rightarrow> 'st \<Rightarrow> 'st"
  getConversationHistory :: "jstring \<Rightarrow> 'st \<Rightarrow> conversationMessage list"
  isUserVerified :: "jstring \<Rightarrow> 'st \<Rightarrow> bool"
  verifyPairingCode :: "jstring \<Rightarrow> jstring \<Rightarrow> jstring option \<Rightarrow> 'st \<Rightarrow> pairingResult \<times> 'st"

section \<open>The command handler\<close>

text \<open>
  The module \<open>command-handler\<close>. Every text below is the sequence of the code units of
  the literal at the same place of the source; the pieces of a template literal are
  joined by \<open>@\<close> around what the source interpolates. The parameters \<open>message\<close> and
  \<open>args\<close> of the source are \<open>msg\<close> and \<open>arguments\<close> here, where those names are fields
  of records; \<open>includes\<close> is \<open>includesStr\<close>.
\<close>

record quickReply =
  label :: jstring
  message :: jstring

record commandResult =
  handled :: bool
  response :: "jstring option"
  sessionReset :: "bool option"
  quickReplies :: "quickReply list option"

text \<open>\<open>stripAnsi\<close>: every match of \<open>/\x1B\[[0-9;]*[a-zA-Z]/g\<close> is removed, scanning
  from the left. A match of this pattern is never empty.\<close>

definition ansiPattern :: regex where
  "ansiPattern =
     seqs [Atom (Lit 0x1B), Atom (Lit 0x5B), Star (InRanges [(0x30, 0x39), (0x3B, 0x3B)]),
           Atom (InRanges [(0x41, 0x5A), (0x61, 0x7A)])]"

function stripAnsi :: "jstring \<Rightarrow> jstring" where
  "stripAnsi [] = []"
| "stripAnsi (c # s) =
     (case ms ansiPattern False (c # s, []) of
        [] \<Rightarrow> c # stripAnsi s
      | st # _ \<Rightarrow> if length (fst st) < length (c # s) then stripAnsi (fst st) else c # stripAnsi s)"
  by pat_completeness auto
termination
  by (relation "measure length") auto

text \<open>\<open>runCli\<close>: the trimmed, escape-stripped output; a failed run still returns its
  captured \<open>stdout\<close> when that is non-empty, and re-throws otherwise.\<close>

definition runCli :: "'st env \<Rightarrow> jstring \<Rightarrow> execError + jstring" where
  "runCli env cmd =
     (case envExec env cmd of
        ExecOk out err \<Rightarrow> Inr (trim (stripAnsi (if out \<noteq> [] then out else err)))
      | ExecFail e \<Rightarrow>
          (case errStdout e of
             Some out \<Rightarrow> if out \<noteq> [] then Inr (trim (stripAnsi out)) else Inl e
           | None \<Rightarrow> Inl e))"

text \<open>\<open>QUICK_COMMANDS\<close>, in display order.\<close>

definition QUICK_COMMANDS :: "quickReply list" where
  "QUICK_COMMANDS =
    [\<lparr>label = [0xD83D, 0xDCCA, 0x20, 0xC0C1, 0xD0DC], message = str ''/status''\<rparr>,
     \<lparr>label = [0x2753, 0x20, 0xB3C4, 0xC6C0, 0xB9D0], message = str ''/help''\<rparr>,
     \<lparr>label = [0xD83E, 0xDD16, 0x20, 0xBAA8, 0xB378], message = str ''/model''\<rparr>,
     \<lparr>label = [0xD83D, 0xDD04, 0x20, 0xCD08, 0xAE30, 0xD654], message = str ''/clear''\<rparr>,
     \<lparr>label = [0xD83E, 0xDDE0, 0x20, 0xCD94, 0xB860], message = str ''/think''\<rparr>,
     \<lparr>label = [0xD83D, 0xDCA1, 0x20, 0xC0AC, 0xC6A9, 0xB7C9], message = str ''/usage''\<rparr>,
     \<lparr>label = [0xD83D, 0xDCDD, 0x20, 0xBA85, 0xB839, 0xC5B4, 0x20, 0xC804, 0xCCB4], message = str ''/commands''\<rparr>]"

subsection \<open>Handlers of the command table\<close>

text \<open>A handler gets the arguments and the session key; it returns its text or throws,
  and may update the conversation store.\<close>

type_synonym 'st handler =
  "'st env \<Rightarrow> jstring \<Rightarrow> jstring \<Rightarrow> 'st \<Rightarrow> (execError + jstring) \<times> 'st"

record 'st commandMapping =
  cli :: "jstring option"
  handler :: "'st handler option"
  description :: jstring

text \<open>\<open>/model\<close> (lines 105 to 117).\<close>

definition modelHandler :: "'st handler" where
  "modelHandler env arguments sessionKey st =
     (if arguments = [] \<or> arguments = str ''list'' then (runCli env (str ''clawdbot model list''), st)
      else if arguments = str ''status'' then (runCli env (str ''clawdbot model status''), st)
      else (runCli env (str ''clawdbot model set '' @ arguments), st))"

text \<open>\<open>/reset\<close> (lines 124 to 130) and \<open>/clear\<close> (lines 135 to 141).\<close>

definition resetHandler :: "'st handler" where
  "resetHandler env arguments sessionKey st =
     (Inr ([0xD83D, 0xDD04, 0x20, 0xB300, 0xD654, 0xB97C, 0x20, 0xCD08, 0xAE30, 0xD654, 0xD588,
     0xC2B5, 0xB2C8, 0xB2E4] @ str ''. '' @ [0xC0C8, 0xB85C, 0xC6B4, 0x20, 0xB300,
     0xD654, 0xB97C, 0x20, 0xC2DC, 0xC791, 0xD558, 0xC138, 0xC694, 0x21]),
      clearConversationHistory env sessionKey st)"

definition clearHandler :: "'st handler" where
  "clearHandler env arguments sessionKey st =
     (Inr [0x2705, 0x20, 0xB300, 0xD654, 0x20, 0xAE30, 0xB85D, 0xC774, 0x20, 0xCD08, 0xAE30,
     0xD654, 0xB418, 0xC5C8, 0xC2B5, 0xB2C8, 0xB2E4, 0x2E],
      clearConversationHistory env sessionKey st)"

text \<open>\<open>/think\<close> (lines 148 to 162): the text it returns (it never throws and touches
  no store).\<close>

definition thinkLevels :: "jstring list" where
  "thinkLevels = map str [''off'', ''minimal'', ''low'', ''medium'', ''high'', ''xhigh'']"

definition thinkText :: "(jstring \<Rightarrow> jstring) \<Rightarrow> jstring \<Rightarrow> jstring" where
  "thinkText uni arguments =
     (let levels = thinkLevels in
      if arguments = [] then
        ([0xD83E, 0xDDE0, 0x20, 0xC0DD, 0xAC01, 0x20, 0xBAA8, 0xB4DC, 0x20, 0xC124, 0xC815,
     0xA, 0xA, 0xC0AC, 0xC6A9, 0xBC95] @ str '': /think <'' @ [0xB808, 0xBCA8, 0x3E,
     0xA, 0xB808, 0xBCA8] @ str '': '') @ join (str '', '') levels @
        ([0xA, 0xA, 0xC608, 0xC2DC] @ str '': /think high'')
      else let level = toLowerCase uni arguments in
        if level \<notin> set levels then
          ([0x274C, 0x20, 0xC798, 0xBABB, 0xB41C, 0x20, 0xB808, 0xBCA8, 0xC785, 0xB2C8, 0xB2E4,
     0x2E, 0xA, 0xC0AC, 0xC6A9, 0x20, 0xAC00, 0xB2A5] @ str '': '') @ join (str '', '') levels
        else
          ([0xD83E, 0xDDE0, 0x20, 0xC0DD, 0xAC01, 0x20, 0xBAA8, 0xB4DC] @ str '': '') @ level @
          [0xA, 0xA, 0xB2E4, 0xC74C, 0x20, 0xBA54, 0xC2DC, 0xC9C0, 0xBD80, 0xD130, 0x20, 0xC801,
     0xC6A9, 0xB429, 0xB2C8, 0xB2E4, 0x2E])"

text \<open>\<open>/verbose\<close> (lines 173 to 185).\<close>

definition verboseModes :: "jstring list" where
  "verboseModes = map str [''on'', ''full'', ''off'']"

definition verboseText :: "(jstring \<Rightarrow> jstring) \<Rightarrow> jstring \<Rightarrow> jstring" where
  "verboseText uni arguments =
     (let modes = verboseModes in
      if arguments = [] then
        ([0xD83D, 0xDCDD, 0x20, 0xC0C1, 0xC138, 0x20, 0xBAA8, 0xB4DC, 0x20, 0xC124, 0xC815,
     0xA, 0xA, 0xC0AC, 0xC6A9, 0xBC95] @ str '': /verbose <on|full|off>'')
      else if toLowerCase uni arguments \<notin> set modes then
        ([0x274C, 0x20, 0xC798, 0xBABB, 0xB41C, 0x20, 0xC635, 0xC158, 0xC785, 0xB2C8, 0xB2E4,
     0x2E, 0xA, 0xC0AC, 0xC6A9, 0x20, 0xAC00, 0xB2A5] @ str '': '') @ join (str '', '') modes
      else
        ([0xD83D, 0xDCDD, 0x20, 0xC0C1, 0xC138, 0x20, 0xBAA8, 0xB4DC] @ str '': '') @ arguments @
        [0xA, 0xA, 0xB2E4, 0xC74C, 0x20, 0xBA54, 0xC2DC, 0xC9C0, 0xBD80, 0xD130, 0x20, 0xC801,
     0xC6A9, 0xB429, 0xB2C8, 0xB2E4, 0x2E])"

text \<open>\<open>/reasoning\<close> (lines 190 to 202).\<close>

definition reasoningModes :: "jstring list" where
  "reasoningModes = map str [''on'', ''off'', ''stream'']"

definition reasoningText :: "(jstring \<Rightarrow> jstring) \<Rightarrow> jstring \<Rightarrow> jstring" where
  "reasoningText uni arguments =
     (let modes = reasoningModes in
      if arguments = [] then
        ([0xD83D, 0xDCAD, 0x20, 0xCD94, 0xB860, 0x20, 0xD45C, 0xC2DC, 0x20, 0xC124, 0xC815,
     0xA, 0xA, 0xC0AC, 0xC6A9, 0xBC95] @ str '': /reasoning <on|off|stream>'')
      else if toLowerCase uni arguments \<notin> set modes then
        ([0x274C, 0x20, 0xC798, 0xBABB, 0xB41C, 0x20, 0xC635, 0xC158, 0xC785, 0xB2C8, 0xB2E4,
     0x2E, 0xA, 0xC0AC, 0xC6A9, 0x20, 0xAC00, 0xB2A5] @ str '': '') @ join (str '', '') modes
      else
        ([0xD83D, 0xDCAD, 0x20, 0xCD94, 0xB860, 0x20, 0xBAA8, 0xB4DC] @ str '': '') @ arguments @
        [0xA, 0xA, 0xB2E4, 0xC74C, 0x20, 0xBA54, 0xC2DC, 0xC9C0, 0xBD80, 0xD130, 0x20, 0xC801,
     0xC6A9, 0xB429, 0xB2C8, 0xB2E4, 0x2E])"

text \<open>\<open>/elevated\<close> (lines 209 to 221).\<close>

definition elevatedModes :: "jstring list" where
  "elevatedModes = map str [''on'', ''off'', ''ask'', ''full'']"

definition elevatedText :: "(jstring \<Rightarrow> jstring) \<Rightarrow> jstring \<Rightarrow> jstring" where
  "elevatedText uni arguments =
     (let modes = elevatedModes in
      if arguments = [] then
        ([0xD83D, 0xDD10, 0x20, 0xAD8C, 0xD55C, 0x20, 0xC0C1, 0xC2B9, 0x20, 0xC124, 0xC815,
     0xA, 0xA, 0xC0AC, 0xC6A9, 0xBC95] @ str '': /elevated <on|off|ask|full>'')
      else if toLowerCase uni arguments \<notin> set modes then
        ([0x274C, 0x20, 0xC798, 0xBABB, 0xB41C, 0x20, 0xC635, 0xC158, 0xC785, 0xB2C8, 0xB2E4,
     0x2E, 0xA, 0xC0AC, 0xC6A9, 0x20, 0xAC00, 0xB2A5] @ str '': '') @ join (str '', '') modes
      else
        ([0xD83D, 0xDD10, 0x20, 0xAD8C, 0xD55C, 0x20, 0xBAA8, 0xB4DC] @ str '': '') @ arguments @
        [0xA, 0xA, 0xB2E4, 0xC74C, 0x20, 0xBA54, 0xC2DC, 0xC9C0, 0xBD80, 0xD130, 0x20, 0xC801,
     0xC6A9, 0xB429, 0xB2C8, 0xB2E4, 0x2E])"

text \<open>\<open>/tts\<close> (lines 228 to 237): the list \<open>modes\<close> is only shown in the usage text.\<close>

definition ttsModes :: "jstring list" where
  "ttsModes = map str [''off'', ''always'', ''inbound'', ''tagged'', ''status'', ''provider'',
     ''limit'', ''summary'', ''audio'']"

definition ttsText :: "jstring \<Rightarrow> jstring" where
  "ttsText arguments =
     (let modes = ttsModes in
      if arguments = [] then
        ([0xD83D, 0xDD0A] @ str '' TTS '' @ [0xC124, 0xC815, 0xA, 0xA, 0xC0AC, 0xC6A9, 0xBC95]
     @ str '': /tts <'' @ [0xC635, 0xC158, 0x3E, 0xA, 0xC635, 0xC158] @ str '': '') @ join (str '', '') modes
      else
        ([0xD83D, 0xDD0A] @ str '' TTS: '') @ arguments @
        [0xA, 0xA, 0xB2E4, 0xC74C, 0x20, 0xBA54, 0xC2DC, 0xC9C0, 0xBD80, 0xD130, 0x20, 0xC801,
     0xC6A9, 0xB429, 0xB2C8, 0xB2E4, 0x2E])"

text \<open>A handler that only returns a text.\<close>

definition pureHandler :: "('st env \<Rightarrow> jstring \<Rightarrow> jstring) \<Rightarrow> 'st handler" where
  "pureHandler f env arguments sessionKey st = (Inr (f env arguments), st)"

text \<open>\<open>/skill\<close>: \<open>args.split(" ")\<close> cuts at every single space; the first piece is
  the skill, the others, joined again, its input.\<close>

fun splitOn :: "nat \<Rightarrow> jstring \<Rightarrow> jstring list" where
  "splitOn d [] = [[]]"
| "splitOn d (c # s) =
     (if c = d then [] # splitOn d s
      else case splitOn d s of [] \<Rightarrow> [[c]] | p # ps \<Rightarrow> (c # p) # ps)"

definition skillHandler :: "'st handler" where
  "skillHandler env arguments sessionKey st =
     (if arguments = [] then (runCli env (str ''clawdbot skill list''), st)
      else case splitOn 0x20 arguments of
        [] \<Rightarrow> (runCli env (str ''clawdbot skill run undefined''), st)
      | skillName # rest \<Rightarrow>
          let input = join (str '' '') rest in
          (runCli env (str ''clawdbot skill run '' @ skillName @
             (if input \<noteq> [] then [0x20, 0x22] @ input @ [0x22] else [])), st))"

text \<open>\<open>/localstatus\<close> (lines 259 to 270).\<close>

definition localstatusText :: "'st env \<Rightarrow> jstring \<Rightarrow> jstring" where
  "localstatusText env arguments =
     ([0xD83E, 0xDD9E, 0x20, 0xCE74, 0xCE74, 0xC624, 0xD1A1, 0x20, 0xBE0C, 0xB9BF, 0xC9C0,
     0x20, 0xC0C1, 0xD0DC, 0xA, 0xA, 0x2705, 0x20, 0xC11C, 0xBC84] @ str '': '' @
     [0xC815, 0xC0C1, 0xA, 0xD83D, 0xDCCD] @ str '' Gateway: '') @ gatewayUrl env @
     ([0xA, 0xD83E, 0xDD16, 0x20, 0xBAA8, 0xB378] @ str '': '') @
     (case model env of
        Some m \<Rightarrow> if m \<noteq> [] then m else [0xAE30, 0xBCF8, 0xAC12]
      | None \<Rightarrow> [0xAE30, 0xBCF8, 0xAC12]) @
     ([0xA, 0xA, 0xD83D, 0xDCA1] @ str '' Clawdbot '' @ [0xC804, 0xCCB4, 0x20, 0xC0C1,
     0xD0DC, 0xB294] @ str '' /status '' @ [0xB85C, 0x20, 0xD655, 0xC778, 0xD558,
     0xC138, 0xC694, 0x2E])"

text \<open>\<open>getHelpText\<close> (lines 276 to 308).\<close>

definition getHelpText :: jstring where
  "getHelpText =
     ([0xD83E, 0xDD9E] @ str '' Clawdbot '' @ [0xCE74, 0xCE74, 0xC624, 0xD1A1, 0x20, 0xB3C4,
     0xC6C0, 0xB9D0, 0xA, 0xA, 0xD83D, 0xDCCC, 0x20, 0xAE30, 0xBCF8, 0x20, 0xBA85,
     0xB839, 0xC5B4, 0xA] @ str ''/help - '' @ [0xB3C4, 0xC6C0, 0xB9D0, 0x20, 0xD45C,
     0xC2DC, 0xA] @ str ''/status - '' @ [0xC2DC, 0xC2A4, 0xD15C, 0x20, 0xC0C1, 0xD0DC,
     0xA] @ str ''/commands - '' @ [0xC804, 0xCCB4, 0x20, 0xBA85, 0xB839, 0xC5B4, 0x20,
     0xBAA9, 0xB85D, 0xA, 0xA, 0xD83D, 0xDCCC, 0x20, 0xC138, 0xC158, 0x20, 0xAD00,
     0xB9AC, 0xA] @ str ''/reset - '' @ [0xC0C8, 0x20, 0xB300, 0xD654, 0x20, 0xC2DC,
     0xC791, 0xA] @ str ''/clear - '' @ [0xB300, 0xD654, 0x20, 0xAE30, 0xB85D, 0x20,
     0xCD08, 0xAE30, 0xD654, 0xA] @ str ''/stop - '' @ [0xD604, 0xC7AC, 0x20, 0xC791,
     0xC5C5, 0x20, 0xC911, 0xC9C0, 0xA, 0xA, 0xD83D, 0xDCCC, 0x20, 0xBAA8, 0xB378,
     0x20, 0xC124, 0xC815, 0xA] @ str ''/model - '' @ [0xBAA8, 0xB378, 0x20, 0xBAA9,
     0xB85D, 0xA] @ str ''/model <'' @ [0xC774, 0xB984] @ str ''> - '' @ [0xBAA8,
     0xB378, 0x20, 0xBCC0, 0xACBD, 0xA] @ str ''/model status - '' @ [0xBAA8, 0xB378,
     0x20, 0xC0C1, 0xD0DC, 0xA, 0xA, 0xD83D, 0xDCCC, 0x20, 0xCD94, 0xB860, 0x2F,
     0xC0AC, 0xACE0, 0x20, 0xC124, 0xC815, 0xA] @ str ''/think <'' @ [0xB808, 0xBCA8] @
     str ''> - '' @ [0xC0AC, 0xACE0, 0x20, 0xAE4A, 0xC774] @
     str '' (off/low/medium/high)'' @ [0xA] @ str ''/verbose <on/off> - '' @ [0xC0C1,
     0xC138, 0x20, 0xBAA8, 0xB4DC, 0xA] @ str ''/reasoning <on/off> - '' @ [0xCD94,
     0xB860, 0x20, 0xD45C, 0xC2DC, 0xA, 0xA, 0xD83D, 0xDCCC, 0x20, 0xAE30, 0xD0C0, 0xA]
     @ str ''/usage - '' @ [0xC0AC, 0xC6A9, 0xB7C9, 0x20, 0xD655, 0xC778, 0xA] @
     str ''/whoami - '' @ [0xB0B4, 0x20, 0xC815, 0xBCF4, 0xA] @ str ''/skill <'' @
     [0xC774, 0xB984] @ str ''> - '' @ [0xC2A4, 0xD0AC, 0x20, 0xC2E4, 0xD589, 0xA, 0xA,
     0xD83D, 0xDCA1, 0x20, 0xC608, 0xC2DC, 0xA, 0x22, 0xC548, 0xB155, 0xD558, 0xC138,
     0xC694, 0x22] @ str '' - '' @ [0xC77C, 0xBC18, 0x20, 0xB300, 0xD654, 0xA, 0x22] @
     str ''/model opus'' @ [0x22] @ str '' - '' @ [0xBAA8, 0xB378, 0x20, 0xBCC0,
     0xACBD, 0xA, 0x22] @ str ''/think high '' @ [0xBCF5, 0xC7A1, 0xD55C, 0x20, 0xBB38,
     0xC81C, 0x20, 0xBD84, 0xC11D, 0xD574, 0xC918, 0x22] @ str '' - '' @ [0xAE4A,
     0xC740, 0x20, 0xC0AC, 0xACE0, 0xB85C, 0x20, 0xBD84, 0xC11D])"

text \<open>The fixed texts of \<open>handleCommand\<close>: the prompt of the bare marker, the text for
  an entry with neither handler nor CLI command and the acknowledgement that
  replaces a blank response.\<close>

definition slashPrompt :: jstring where
  "slashPrompt =
     [0xD83E, 0xDD9E, 0x20, 0xBA85, 0xB839, 0xC5B4, 0xB97C, 0x20, 0xC120, 0xD0DD, 0xD558,
     0xC138, 0xC694, 0x21]"

definition notImplemented :: jstring where
  "notImplemented =
     [0xC774, 0x20, 0xBA85, 0xB839, 0xC5B4, 0xB294, 0x20, 0xC544, 0xC9C1, 0x20, 0xAD6C,
     0xD604, 0xB418, 0xC9C0, 0x20, 0xC54A, 0xC558, 0xC2B5, 0xB2C8, 0xB2E4, 0x2E]"

definition acknowledgement :: jstring where
  "acknowledgement =
     [0x2705, 0x20, 0xBA85, 0xB839, 0xC5B4, 0xAC00, 0x20, 0xC2E4, 0xD589, 0xB418, 0xC5C8,
     0xC2B5, 0xB2C8, 0xB2E4, 0x2E]"

subsection \<open>The command table\<close>

text \<open>
  The \<open>description\<close> of every entry of \<open>COMMANDS\<close>, in the order of the table.
  \<open>getCommandList\<close> reads the descriptions back out of the table it is an entry of;
  the descriptions are therefore given first and the table is built on them.
\<close>

definition descriptions :: "(jstring \<times> jstring) list" where
  "descriptions =
    [(str ''/'', [0xBA85, 0xB839, 0xC5B4, 0x20, 0xBAA9, 0xB85D, 0x20, 0xC120, 0xD0DD]),
     (str ''/status'', [0xC2DC, 0xC2A4, 0xD15C, 0x20, 0xC0C1, 0xD0DC, 0x20, 0xD655, 0xC778]),
     (str ''/help'', [0xB3C4, 0xC6C0, 0xB9D0, 0x20, 0xD45C, 0xC2DC]),
     (str ''/commands'', [0xBA85, 0xB839, 0xC5B4, 0x20, 0xBAA9, 0xB85D]),
     (str ''/whoami'', [0xB0B4, 0x20, 0xC815, 0xBCF4, 0x20, 0xD655, 0xC778]),
     (str ''/id'', (str ''/whoami '' @ [0xBCC4, 0xCE6D])),
     (str ''/context'', [0xCEE8, 0xD14D, 0xC2A4, 0xD2B8, 0x20, 0xC815, 0xBCF4]),
     (str ''/usage'', [0xC0AC, 0xC6A9, 0xB7C9, 0x20, 0xD655, 0xC778]),
     (str ''/model'', [0xBAA8, 0xB378, 0x20, 0xC120, 0xD0DD, 0x2F, 0xBAA9, 0xB85D]),
     (str ''/models'', (str ''/model '' @ [0xBCC4, 0xCE6D])),
     (str ''/reset'', [0xB300, 0xD654, 0x20, 0xCD08, 0xAE30, 0xD654]),
     (str ''/new'', (str ''/reset '' @ [0xBCC4, 0xCE6D])),
     (str ''/clear'', [0xB300, 0xD654, 0x20, 0xAE30, 0xB85D, 0x20, 0xCD08, 0xAE30, 0xD654]),
     (str ''/stop'', [0xD604, 0xC7AC, 0x20, 0xC791, 0xC5C5, 0x20, 0xC911, 0xC9C0]),
     (str ''/think'', ([0xC0DD, 0xAC01, 0x20, 0xBAA8, 0xB4DC] @ str '' (off/low/medium/high)'')),
     (str ''/thinking'', (str ''/think '' @ [0xBCC4, 0xCE6D])),
     (str ''/t'', (str ''/think '' @ [0xBCC4, 0xCE6D])),
     (str ''/verbose'', [0xC0C1, 0xC138, 0x20, 0xCD9C, 0xB825, 0x20, 0xBAA8, 0xB4DC]),
     (str ''/v'', (str ''/verbose '' @ [0xBCC4, 0xCE6D])),
     (str ''/reasoning'', [0xCD94, 0xB860, 0x20, 0xD45C, 0xC2DC, 0x20, 0xBAA8, 0xB4DC]),
     (str ''/reason'', (str ''/reasoning '' @ [0xBCC4, 0xCE6D])),
     (str ''/elevated'', [0xAD8C, 0xD55C, 0x20, 0xC0C1, 0xC2B9, 0x20, 0xBAA8, 0xB4DC]),
     (str ''/elev'', (str ''/elevated '' @ [0xBCC4, 0xCE6D])),
     (str ''/tts'', [0xC74C, 0xC131, 0x20, 0xD569, 0xC131, 0x20, 0xC124, 0xC815]),
     (str ''/skill'', [0xC2A4, 0xD0AC, 0x20, 0xC2E4, 0xD589]),
     (str ''/subagents'', [0xC11C, 0xBE0C, 0xC5D0, 0xC774, 0xC804, 0xD2B8, 0x20, 0xBAA9, 0xB85D]),
     (str ''/localstatus'', ([0xBE0C, 0xB9BF, 0xC9C0, 0x20, 0xC0C1, 0xD0DC] @ str '' ('' @ [0xB85C, 0xCEEC, 0x29]))]"

text \<open>\<open>getCommandList\<close>: a heading for each category and a line for each of its
  commands that the table has.\<close>

definition categories :: "(jstring \<times> jstring list) list" where
  "categories =
    [([0xD83D, 0xDCCA, 0x20, 0xC0C1, 0xD0DC, 0x2F, 0xC815, 0xBCF4],
      map str [''/status'', ''/help'', ''/commands'', ''/whoami'', ''/context'', ''/usage'']),
     ([0xD83E, 0xDD16, 0x20, 0xBAA8, 0xB378, 0x2F, 0xC124, 0xC815],
      map str [''/model'', ''/think'', ''/verbose'', ''/reasoning'', ''/elevated'']),
     ([0xD83D, 0xDCAC, 0x20, 0xC138, 0xC158, 0x20, 0xAD00, 0xB9AC],
      map str [''/reset'', ''/clear'', ''/stop'']),
     ([0xD83D, 0xDD27, 0x20, 0xAE30, 0xD0C0],
      map str [''/tts'', ''/skill'', ''/subagents'', ''/localstatus''])]"

definition commandLine :: "jstring \<Rightarrow> jstring \<Rightarrow> jstring" where
  "commandLine result cmd =
     (case map_of descriptions cmd of
        Some d \<Rightarrow> result @ str ''  '' @ cmd @ str '' - '' @ d @ [0x0A]
      | None \<Rightarrow> result)"

definition categoryLines :: "jstring \<Rightarrow> jstring \<times> jstring list \<Rightarrow> jstring" where
  "categoryLines result entry =
     foldl commandLine (result @ fst entry @ [0x0A]) (snd entry) @ [0x0A]"

definition getCommandList :: jstring where
  "getCommandList =
     trim (foldl categoryLines
       ([0xD83E, 0xDD9E] @ str '' Clawdbot '' @ [0xBA85, 0xB839, 0xC5B4, 0x20, 0xBAA9, 0xB85D,
     0xA, 0xA])
       categories)"

definition entry :: "jstring \<Rightarrow> jstring option \<Rightarrow> 'st handler option \<Rightarrow> jstring \<times> 'st commandMapping" where
  "entry key c h =
     (key, \<lparr>cli = c, handler = h,
            description = (case map_of descriptions key of Some d \<Rightarrow> d | None \<Rightarrow> [])\<rparr>)"

text \<open>\<open>COMMANDS\<close>. An alias calls the handler of the entry it stands for; \<open>/models\<close>
  passes the empty string as the session key.\<close>

definition COMMANDS :: "(jstring \<times> 'st commandMapping) list" where
  "COMMANDS =
    [entry (str ''/'') None
       (Some (pureHandler (\<lambda>env arguments. slashPrompt))),
     entry (str ''/status'') (Some (str ''clawdbot status'')) None,
     entry (str ''/help'') None (Some (pureHandler (\<lambda>env arguments. getHelpText))),
     entry (str ''/commands'') None (Some (pureHandler (\<lambda>env arguments. getCommandList))),
     entry (str ''/whoami'') (Some (str ''clawdbot whoami'')) None,
     entry (str ''/id'') (Some (str ''clawdbot whoami'')) None,
     entry (str ''/context'') (Some (str ''clawdbot context'')) None,
     entry (str ''/usage'') (Some (str ''clawdbot usage'')) None,
     entry (str ''/model'') None (Some modelHandler),
     entry (str ''/models'') None
       (Some (\<lambda>env arguments sessionKey. modelHandler env arguments [])),
     entry (str ''/reset'') None (Some resetHandler),
     entry (str ''/new'') None (Some resetHandler),
     entry (str ''/clear'') None (Some clearHandler),
     entry (str ''/stop'') (Some (str ''clawdbot stop'')) None,
     entry (str ''/think'') None (Some (pureHandler (\<lambda>env. thinkText (envLower env)))),
     entry (str ''/thinking'') None (Some (pureHandler (\<lambda>env. thinkText (envLower env)))),
     entry (str ''/t'') None (Some (pureHandler (\<lambda>env. thinkText (envLower env)))),
     entry (str ''/verbose'') None (Some (pureHandler (\<lambda>env. verboseText (envLower env)))),
     entry (str ''/v'') None (Some (pureHandler (\<lambda>env. verboseText (envLower env)))),
     entry (str ''/reasoning'') None (Some (pureHandler (\<lambda>env. reasoningText (envLower env)))),
     entry (str ''/reason'') None (Some (pureHandler (\<lambda>env. reasoningText (envLower env)))),
     entry (str ''/elevated'') None (Some (pureHandler (\<lambda>env. elevatedText (envLower env)))),
     entry (str ''/elev'') None (Some (pureHandler (\<lambda>env. elevatedText (envLower env)))),
     entry (str ''/tts'') None (Some (pureHandler (\<lambda>env. ttsText))),
     entry (str ''/skill'') None (Some skillHandler),
     entry (str ''/subagents'') (Some (str ''clawdbot sessions list --kind subagent'')) None,
     entry (str ''/localstatus'') None (Some (pureHandler localstatusText))]"

subsection \<open>\<open>handleCommand\<close>\<close>

text \<open>What the \<open>try\<close> block of \<open>handleCommand\<close> comes to: a \<open>response\<close> to finish,
  a \<open>return\<close> from inside the block, or an exception for the outer \<open>catch\<close>.\<close>

datatype tried = Response jstring | Return commandResult | Throw execError

definition notHandled :: commandResult where
  "notHandled = \<lparr>handled = False, response = None, sessionReset = None, quickReplies = None\<rparr>"

text \<open>The text of \<open>error.message\<close> inside a template literal.\<close>

definition messageText :: "execError \<Rightarrow> jstring" where
  "messageText e = (case errMessage e of Some m \<Rightarrow> m | None \<Rightarrow> str ''undefined'')"

text \<open>The text for an exception caught by \<open>handleCommand\<close>.\<close>

definition executionError :: "execError \<Rightarrow> jstring" where
  "executionError e =
     [0x274C, 0x20, 0xBA85, 0xB839, 0xC5B4, 0x20, 0xC2E4, 0xD589, 0x20, 0xC911, 0x20,
     0xC624, 0xB958, 0xAC00, 0x20, 0xBC1C, 0xC0DD, 0xD588, 0xC2B5, 0xB2C8, 0xB2E4,
     0x2E, 0xA, 0xA] @ messageText e"

text \<open>\<open>cliError.message?.includes(...)\<close> for the three markers of an unknown command.\<close>

definition unknownCommandError :: "execError \<Rightarrow> bool" where
  "unknownCommandError e =
     (case errMessage e of
        None \<Rightarrow> False
      | Some m \<Rightarrow> includesStr m (str ''not recognized'') \<or> includesStr m (str ''unknown'') \<or>
          includesStr m (str ''is not''))"

text \<open>The command line for a token that is not in the table.\<close>

definition forwardedCommand :: "parsed \<Rightarrow> jstring" where
  "forwardedCommand p =
     (let cliCommand = drop 1 (command p) in
      if args p \<noteq> [] then str ''clawdbot '' @ cliCommand @ str '' '' @ args p
      else str ''clawdbot '' @ cliCommand)"

definition tryCommand :: "'st env \<Rightarrow> parsed \<Rightarrow> jstring \<Rightarrow> 'st \<Rightarrow> tried \<times> 'st" where
  "tryCommand env p sessionKey st =
     (case map_of COMMANDS (command p) of
        Some cmdInfo \<Rightarrow>
          (case handler cmdInfo of
             Some h \<Rightarrow>
               (case h env (args p) sessionKey st of
                  (Inr r, st') \<Rightarrow> (Response r, st')
                | (Inl e, st') \<Rightarrow> (Throw e, st'))
           | None \<Rightarrow>
               (case cli cmdInfo of
                  Some c \<Rightarrow>
                    if c \<noteq> [] then
                      (case runCli env (if args p \<noteq> [] then c @ str '' '' @ args p else c) of
                         Inr r \<Rightarrow> (Response r, st)
                       | Inl e \<Rightarrow> (Throw e, st))
                    else (Response notImplemented, st)
                | None \<Rightarrow> (Response notImplemented, st)))
      | None \<Rightarrow>
          (case runCli env (forwardedCommand p) of
             Inr r \<Rightarrow> (Response r, st)
           | Inl cliError \<Rightarrow>
               if unknownCommandError cliError then (Return notHandled, st)
               else (Throw cliError, st)))"

definition handleCommand :: "'st env \<Rightarrow> jstring \<Rightarrow> jstring \<Rightarrow> 'st \<Rightarrow> commandResult \<times> 'st" where
  "handleCommand env msg sessionKey st =
     (if \<not> isCommand msg then (notHandled, st)
      else let p = parseCommand (envLower env) msg in
        if command p = str ''/pair'' then (notHandled, st)
        else case tryCommand env p sessionKey st of
          (Return r, st') \<Rightarrow> (r, st')
        | (Throw e, st') \<Rightarrow>
            (\<lparr>handled = True,
              response = Some (executionError e),
              sessionReset = None, quickReplies = None\<rparr>, st')
        | (Response r, st') \<Rightarrow>
            let r' = (if r = [] \<or> trim r = [] then acknowledgement else r) in
            if command p = str ''/'' then
              (\<lparr>handled = True, response = Some r', sessionReset = None,
                quickReplies = Some QUICK_COMMANDS\<rparr>, st')
            else
              (\<lparr>handled = True, response = Some r', sessionReset = None,
                quickReplies = None\<rparr>, st'))"

section \<open>The directive extractor\<close>

text \<open>\<open>directivePatterns\<close>, in the order of the source; all have the \<open>i\<close> flag:
  \<^verbatim>\<open>/^\/(think|thinking|t)\s+(off|minimal|low|medium|high|xhigh)\s+/i\<close>,
  \<^verbatim>\<open>/^\/(verbose|v)\s+(on|full|off)\s+/i\<close>,
  \<^verbatim>\<open>/^\/(reasoning|reason)\s+(on|off|stream)\s+/i\<close>,
  \<^verbatim>\<open>/^\/(elevated|elev)\s+(on|off|ask|full)\s+/i\<close>,
  \<^verbatim>\<open>/^\/model\s+(\S+)\s+/i\<close>,
  \<^verbatim>\<open>/^\/(exec)\s+[^\s]+\s+/i\<close>.\<close>

definition words :: "string list \<Rightarrow> regex" where
  "words ws = alts (map (\<lambda>w. lits (str w)) ws)"

definition thinkPattern :: regex where
  "thinkPattern =
     seqs [Atom (Lit 0x2F), Group 1 (words [''think'', ''thinking'', ''t'']), Plus SpaceChar,
           Group 2 (words [''off'', ''minimal'', ''low'', ''medium'', ''high'', ''xhigh'']),
           Plus SpaceChar]"

definition verbosePattern :: regex where
  "verbosePattern =
     seqs [Atom (Lit 0x2F), Group 1 (words [''verbose'', ''v'']), Plus SpaceChar,
           Group 2 (words [''on'', ''full'', ''off'']), Plus SpaceChar]"

definition reasoningPattern :: regex where
  "reasoningPattern =
     seqs [Atom (Lit 0x2F), Group 1 (words [''reasoning'', ''reason'']), Plus SpaceChar,
           Group 2 (words [''on'', ''off'', ''stream'']), Plus SpaceChar]"

definition elevatedPattern :: regex where
  "elevatedPattern =
     seqs [Atom (Lit 0x2F), Group 1 (words [''elevated'', ''elev'']), Plus SpaceChar,
           Group 2 (words [''on'', ''off'', ''ask'', ''full'']), Plus SpaceChar]"

definition modelPattern :: regex where
  "modelPattern =
     seqs [lits (str ''/model''), Plus SpaceChar, Group 1 (Plus NonSpaceChar), Plus SpaceChar]"

definition execPattern :: regex where
  "execPattern =
     seqs [Atom (Lit 0x2F), Group 1 (lits (str ''exec'')), Plus SpaceChar, Plus NonSpaceChar,
           Plus SpaceChar]"

definition directivePatterns :: "regex list" where
  "directivePatterns =
     [thinkPattern, verbosePattern, reasoningPattern, elevatedPattern, modelPattern,
      execPattern]"

text \<open>\<open>s.replace(p, r)\<close> with a string pattern: the first occurrence of \<open>p\<close> is
  replaced (the replacement of the source is the empty string).\<close>

fun replaceFirst :: "jstring \<Rightarrow> jstring \<Rightarrow> jstring \<Rightarrow> jstring" where
  "replaceFirst [] p r = (if p = [] then r else [])"
| "replaceFirst (c # s) p r =
     (if take (length p) (c # s) = p then r @ drop (length p) (c # s)
      else c # replaceFirst s p r)"

record extracted =
  directives :: "jstring list"
  cleanMessage :: jstring

text \<open>The body of the loop, for one pattern.\<close>

definition directiveStep :: "extracted \<Rightarrow> regex \<Rightarrow> extracted" where
  "directiveStep acc pattern =
     (case regexMatch True pattern (cleanMessage acc) of
        Some m \<Rightarrow>
          \<lparr>directives = directives acc @ [trim (whole m)],
           cleanMessage = trim (replaceFirst (cleanMessage acc) (whole m) [])\<rparr>
      | None \<Rightarrow> acc)"

definition extractDirectives :: "jstring \<Rightarrow> extracted" where
  "extractDirectives msg =
     foldl directiveStep \<lparr>directives = [], cleanMessage = msg\<rparr> directivePatterns"

section \<open>The bridge to the chat backend\<close>

record metadata =
  toolsUsed :: "jstring list option"
  processingTime :: nat

text \<open>\<open>ClawdbotResponse\<close>; the field \<open>replyText\<close> is \<open>text\<close> in the source.\<close>

record clawdbotResponse =
  replyText :: jstring
  metadata :: metadata

text \<open>The fixed texts of the bridge: the text for an answer without content and the
  two fallback texts.\<close>

definition noAnswer :: jstring where
  "noAnswer =
     [0xC751, 0xB2F5, 0xC744, 0x20, 0xBC1B, 0xC9C0, 0x20, 0xBABB, 0xD588, 0xC2B5, 0xB2C8,
     0xB2E4, 0x2E]"

definition timeoutFallback :: jstring where
  "timeoutFallback =
     ([0x23F3, 0x20, 0xC751, 0xB2F5, 0x20, 0xC0DD, 0xC131, 0xC5D0, 0x20, 0xC2DC, 0xAC04,
     0xC774, 0x20, 0xAC78, 0xB9AC, 0xACE0, 0x20, 0xC788, 0xC5B4, 0xC694] @ str ''. '' @
     [0xC7A0, 0xC2DC, 0x20, 0xD6C4, 0x20, 0xB2E4, 0xC2DC, 0x20, 0xC2DC, 0xB3C4, 0xD558,
     0xAC70, 0xB098] @ str '', '' @ [0xB354, 0x20, 0xAC04, 0xB2E8, 0xD55C, 0x20,
     0xC9C8, 0xBB38, 0xC744, 0x20, 0xD574, 0xC8FC, 0xC138, 0xC694, 0x21])"

definition failureFallback :: jstring where
  "failureFallback =
     ([0xC8C4, 0xC1A1, 0xD569, 0xB2C8, 0xB2E4] @ str ''. AI '' @ [0xCC98, 0xB9AC, 0x20,
     0xC911, 0x20, 0xC624, 0xB958, 0xAC00, 0x20, 0xBC1C, 0xC0DD, 0xD588, 0xC2B5,
     0xB2C8, 0xB2E4] @ str ''. '' @ [0xC7A0, 0xC2DC, 0x20, 0xD6C4, 0x20, 0xB2E4,
     0xC2DC, 0x20, 0xC2DC, 0xB3C4, 0xD574, 0xC8FC, 0xC138, 0xC694, 0x2E])"

text \<open>A number inside a template literal: its decimal digits.\<close>

function decimal :: "nat \<Rightarrow> jstring" where
  "decimal n = (if n < 10 then [0x30 + n] else decimal (n div 10) @ [0x30 + n mod 10])"
  by pat_completeness auto
termination
  by (relation "measure id") auto

declare decimal.simps [simp del]

text \<open>
  \<open>askClawdbotGateway\<close>: the system prompt when configured, the last ten messages of
  the history and the current message are posted to the gateway. \<open>Inl e\<close> is an
  exception whose string form is \<open>e\<close>; the function re-throws whatever it catches.
\<close>

definition askClawdbotGateway ::
    "'st env \<Rightarrow> jstring \<Rightarrow> jstring \<Rightarrow> conversationMessage list \<Rightarrow> jstring + clawdbotResponse" where
  "askClawdbotGateway env msg sessionKey conversationHistory =
     (let systemMessages =
            (case systemPrompt env of
               Some p \<Rightarrow> if p \<noteq> [] then [\<lparr>role = System, content = p\<rparr>] else []
             | None \<Rightarrow> []);
          recentHistory = drop (length conversationHistory - 10) conversationHistory;
          msgs = systemMessages @ recentHistory @ [\<lparr>role = User, content = msg\<rparr>];
          requestBody =
            \<lparr>requestModel =
               (case model env of Some m \<Rightarrow> if m \<noteq> [] then Some m else None | None \<Rightarrow> None),
             messages = msgs, stream = False\<rparr>;
          apiUrl = gatewayUrl env @ str ''/v1/chat/completions'';
          hdrs = (str ''Content-Type'', str ''application/json'') #
            (case gatewayToken env of
               Some t \<Rightarrow> if t \<noteq> [] then [(str ''Authorization'', str ''Bearer '' @ t)] else []
             | None \<Rightarrow> [])
      in case envFetch env \<lparr>url = apiUrl, headers = hdrs, body = requestBody\<rparr> of
           FetchThrows e \<Rightarrow> Inl e
         | FetchReturns resp \<Rightarrow>
             if \<not> ok resp then
               (case bodyText resp of
                  Inl e \<Rightarrow> Inl e
                | Inr errorText \<Rightarrow> Inl (str ''Error: Gateway API error: '' @ decimal (status resp)))
             else
               (case bodyContent resp of
                  Inl e \<Rightarrow> Inl e
                | Inr c \<Rightarrow>
                    Inr \<lparr>replyText =
                           (case c of
                              Some t \<Rightarrow> if t \<noteq> [] then t else noAnswer
                            | None \<Rightarrow> noAnswer),
                         metadata = \<lparr>toolsUsed = None, processingTime = envElapsed env\<rparr>\<rparr>))"

text \<open>\<open>askClawdbot\<close>: the gateway's answer, or a fallback text chosen by the string
  form of the exception.\<close>

definition askClawdbot ::
    "'st env \<Rightarrow> jstring \<Rightarrow> jstring \<Rightarrow> conversationMessage list \<Rightarrow> clawdbotResponse" where
  "askClawdbot env msg sessionKey conversationHistory =
     (case askClawdbotGateway env msg sessionKey conversationHistory of
        Inr r \<Rightarrow> r
      | Inl errorMessage \<Rightarrow>
          let isTimeout =
                includesStr errorMessage (str ''timeout'') \<or>
                includesStr errorMessage (str ''ETIMEDOUT'')
          in \<lparr>replyText =
                 (if isTimeout then
                    timeoutFallback
                  else
                    failureFallback),
               metadata = \<lparr>toolsUsed = Some [], processingTime = 0\<rparr>\<rparr>)"

section \<open>The webhook server\<close>

text \<open>
  The reply of the skill endpoint is modelled by what goes into its envelope
  (\<open>createTextResponse\<close>, \<open>addQuickReplies\<close>): the text and the quick replies. A
  callback is modelled by the arguments of \<open>sendCallback\<close> or \<open>sendErrorCallback\<close>.
  The collaborators are taken not to throw, so the \<open>catch\<close> blocks of the two paths,
  which guard only them, have no branch here. Each function also reports which branch
  of the source produced the answer.
\<close>

datatype branch = PAIRING | UNVERIFIED | COMMAND | CHAT

record skillResponse =
  simpleText :: jstring
  replyButtons :: "quickReply list option"

datatype callback =
    Callback jstring jstring "quickReply list option"
  | ErrorCallback jstring jstring

text \<open>\<open>s.split(/\s+/)\<close>: the pieces between the maximal runs of white space.\<close>

function splitSpaces :: "jstring \<Rightarrow> jstring list" where
  "splitSpaces s =
     (let piece = takeWhile (\<lambda>c. \<not> isSpace c) s;
          rest = dropWhile (\<lambda>c. \<not> isSpace c) s
      in if rest = [] then [piece] else piece # splitSpaces (dropWhile isSpace rest))"
  by pat_completeness auto
termination
proof (relation "measure length")
  show "wf (measure length)"
    by simp
next
  fix s piece rest :: jstring
  assume r: "rest = dropWhile (\<lambda>c. \<not> isSpace c) s" and ne: "rest \<noteq> []"
  from ne obtain c t where ct: "rest = c # t"
    by (cases rest) auto
  have "dropWhile (\<lambda>c. \<not> isSpace c) s \<noteq> []"
    using r ne by simp
  then have "\<not> \<not> isSpace (hd (dropWhile (\<lambda>c. \<not> isSpace c) s))"
    by (rule hd_dropWhile)
  then have "isSpace c"
    using r ct by (metis list.sel(1))
  then have "length (dropWhile isSpace rest) \<le> length t"
    using ct length_dropWhile_le [of isSpace t] by simp
  moreover have "length rest \<le> length s"
    using r length_dropWhile_le by blast
  ultimately show "(dropWhile isSpace rest, s) \<in> measure length"
    using ct by simp
qed

declare splitSpaces.simps [simp del]

text \<open>The code and the name of a pairing utterance: \<open>parts[1]\<close> and
  \<open>parts.slice(2).join(" ") || undefined\<close>.\<close>

definition pairingCode :: "jstring \<Rightarrow> jstring option" where
  "pairingCode utterance =
     (let parts = splitSpaces utterance in if 1 < length parts then Some (parts ! 1) else None)"

definition pairingName :: "jstring \<Rightarrow> jstring option" where
  "pairingName utterance =
     (let name = join (str '' '') (drop 2 (splitSpaces utterance))
      in if name \<noteq> [] then Some name else None)"

definition pairingUsage :: jstring where
  "pairingUsage =
     ([0xD83D, 0xDCDD] @ str '' Pairing '' @ [0xC0AC, 0xC6A9, 0xBC95, 0xA, 0xA] @
     str ''/pair ['' @ [0xC778, 0xC99D, 0xCF54, 0xB4DC] @ str ''] ['' @ [0xC774,
     0xB984, 0x5D, 0xA, 0xA, 0xC608, 0xC2DC, 0x3A, 0xA] @ str ''/pair myCode'' @ [0xA]
     @ str ''/pair myCode '' @ [0xD64D, 0xAE38, 0xB3D9])"

text \<open>The test both paths make first: \<open>utterance.toLowerCase().startsWith("/pair")\<close>.\<close>

definition isPairing :: "'st env \<Rightarrow> jstring \<Rightarrow> bool" where
  "isPairing env utterance = startsWith (toLowerCase (envLower env) utterance) (str ''/pair'')"

text \<open>The chat branch, common to both paths: the utterance is stored, the backend is
  asked with the history, the answer is stored.\<close>

definition chat :: "'st env \<Rightarrow> jstring \<Rightarrow> jstring \<Rightarrow> 'st \<Rightarrow> jstring \<times> 'st" where
  "chat env kakaoId utterance st =
     (let st1 = addConversationMessage env kakaoId User utterance st;
          history = getConversationHistory env kakaoId st1;
          r = askClawdbot env utterance kakaoId history;
          st2 = addConversationMessage env kakaoId Assistant (replyText r) st1
      in (replyText r, st2))"

text \<open>\<open>handleWithoutCallback\<close>: the synchronous path.\<close>

definition handleWithoutCallback ::
    "'st env \<Rightarrow> jstring \<Rightarrow> jstring \<Rightarrow> 'st \<Rightarrow> branch \<times> skillResponse \<times> 'st" where
  "handleWithoutCallback env kakaoId utterance st =
     (if isPairing env utterance then
        (case pairingCode utterance of
           None \<Rightarrow> (PAIRING, \<lparr>simpleText = pairingUsage, replyButtons = None\<rparr>, st)
         | Some code \<Rightarrow>
             if code = [] then (PAIRING, \<lparr>simpleText = pairingUsage, replyButtons = None\<rparr>, st)
             else
               let (result, st') = verifyPairingCode env kakaoId code (pairingName utterance) st
               in (PAIRING,
                   \<lparr>simpleText =
                      (if success result then resultMessage result
                       else [0x274C, 0x20] @ resultMessage result),
                    replyButtons = None\<rparr>, st'))
      else if \<not> isUserVerified env kakaoId st then
        (UNVERIFIED,
         \<lparr>simpleText =
            ([0xD83D, 0xDD10, 0x20, 0xC778, 0xC99D, 0xC774, 0x20, 0xD544, 0xC694, 0xD569, 0xB2C8,
     0xB2E4, 0x2E, 0xA, 0xA, 0x22] @ str ''/pair ['' @ [0xC778, 0xC99D, 0xCF54, 0xB4DC,
     0x5D, 0x22, 0x20, 0xB610, 0xB294, 0x20, 0x22] @ str ''/pair ['' @ [0xC778, 0xC99D,
     0xCF54, 0xB4DC] @ str ''] ['' @ [0xC774, 0xB984, 0x5D, 0x22, 0xC744, 0x20, 0xC785,
     0xB825, 0xD574, 0xC8FC, 0xC138, 0xC694, 0x2E]),
          replyButtons = None\<rparr>, st)
      else
        let (commandResult, st1) =
              (if isCommand utterance then handleCommand env utterance kakaoId st
               else (notHandled, st))
        in if handled commandResult \<and> response commandResult \<noteq> None \<and>
              response commandResult \<noteq> Some [] then
             (COMMAND,
              \<lparr>simpleText = the (response commandResult),
               replyButtons = quickReplies commandResult\<rparr>, st1)
           else
             let (answer, st2) = chat env kakaoId utterance st1
             in (CHAT, \<lparr>simpleText = answer, replyButtons = None\<rparr>, st2))"

text \<open>\<open>handlePairingCommand\<close> and \<open>processMessageAsync\<close>: the asynchronous path.\<close>

definition handlePairingCommand ::
    "'st env \<Rightarrow> jstring \<Rightarrow> jstring \<Rightarrow> jstring \<Rightarrow> 'st \<Rightarrow> callback \<times> 'st" where
  "handlePairingCommand env kakaoId utterance callbackUrl st =
     (case pairingCode utterance of
        None \<Rightarrow> (Callback callbackUrl pairingUsage None, st)
      | Some code \<Rightarrow>
          if code = [] then (Callback callbackUrl pairingUsage None, st)
          else
            let (result, st') = verifyPairingCode env kakaoId code (pairingName utterance) st
            in if success result then
                 (Callback callbackUrl (resultMessage result)
                    (Some [\<lparr>label = [0xC2DC, 0xC791, 0xD558, 0xAE30], message = [0xC548, 0xB155, 0xD558, 0xC138, 0xC694, 0x21]\<rparr>,
                           \<lparr>label = [0xB3C4, 0xC6C0, 0xB9D0], message = str ''/help''\<rparr>]), st')
               else
                 (Callback callbackUrl ([0x274C, 0x20] @ resultMessage result) None, st'))"

definition processMessageAsync ::
    "'st env \<Rightarrow> jstring \<Rightarrow> jstring \<Rightarrow> jstring \<Rightarrow> 'st \<Rightarrow> branch \<times> callback \<times> 'st" where
  "processMessageAsync env kakaoId utterance callbackUrl st =
     (if isPairing env utterance then
        (let (cb, st') = handlePairingCommand env kakaoId utterance callbackUrl st
         in (PAIRING, cb, st'))
      else if \<not> isUserVerified env kakaoId st then
        (UNVERIFIED,
         Callback callbackUrl
           ([0xD83D, 0xDD10, 0x20, 0xC778, 0xC99D, 0xC774, 0x20, 0xD544, 0xC694, 0xD569, 0xB2C8,
     0xB2E4, 0x2E, 0xA, 0xA, 0x22] @ str ''/pair ['' @ [0xC778, 0xC99D, 0xCF54, 0xB4DC,
     0x5D, 0x22, 0xB97C, 0x20, 0xC785, 0xB825, 0xD574, 0xC8FC, 0xC138, 0xC694, 0x2E,
     0xA, 0xC608] @ str '': /pair mySecretCode '' @ [0xD64D, 0xAE38, 0xB3D9])
           (Some [\<lparr>label = [0xC778, 0xC99D, 0x20, 0xBC29, 0xBC95], message = str ''/help pair''\<rparr>]), st)
      else
        let (commandResult, st1) =
              (if isCommand utterance then handleCommand env utterance kakaoId st
               else (notHandled, st))
        in if handled commandResult \<and> response commandResult \<noteq> None \<and>
              response commandResult \<noteq> Some [] then
             (COMMAND,
              Callback callbackUrl (the (response commandResult))
                (Some (case quickReplies commandResult of
                         Some qs \<Rightarrow> qs
                       | None \<Rightarrow>
                           if startsWith (toLowerCase (envLower env) utterance) (str ''/clear'')
                           then [\<lparr>label = [0xC0C8, 0x20, 0xB300, 0xD654, 0x20, 0xC2DC, 0xC791],
                                  message = [0xC548, 0xB155, 0xD558, 0xC138, 0xC694]\<rparr>]
                           else [\<lparr>label = [0xB3C4, 0xC6C0, 0xB9D0], message = str ''/help''\<rparr>,
                                 \<lparr>label = [0xC0C1, 0xD0DC], message = str ''/status''\<rparr>])), st1)
           else
             let (answer, st2) = chat env kakaoId utterance st1
             in (CHAT,
                 Callback callbackUrl answer
                   (Some [\<lparr>label = [0xACC4, 0xC18D], message = [0xACC4, 0xC18D, 0xD574, 0xC8FC, 0xC138, 0xC694]\<rparr>,
                          \<lparr>label = [0xC0C8, 0x20, 0xC8FC, 0xC81C], message = str ''/clear''\<rparr>]), st2))"

section \<open>Notions used in the statements\<close>

text \<open>The first element of a list of results, if any.\<close>

definition firstOf :: "'a list \<Rightarrow> 'a option" where
  "firstOf xs = (case xs of [] \<Rightarrow> None | x # _ \<Rightarrow> Some x)"

text \<open>What is left of a string when the white space at its end is removed.\<close>

definition trimEnd :: "jstring \<Rightarrow> jstring" where
  "trimEnd s = rev (dropWhile isSpace (rev s))"

text \<open>
  The shape \<open>marker + word\<close> of a trimmed command line, its token, what follows the
  token and the optional colon and the white space after them, and the first line of
  a string.
\<close>

definition commandShape :: "jstring \<Rightarrow> bool" where
  "commandShape t = (case t of a # c # r \<Rightarrow> a = 0x2F \<and> isWord c | _ \<Rightarrow> False)"

definition tokenOf :: "jstring \<Rightarrow> jstring" where
  "tokenOf t = 0x2F # takeWhile isWord (tl t)"

definition afterColon :: "jstring \<Rightarrow> jstring" where
  "afterColon u = (case u of [] \<Rightarrow> [] | c # r \<Rightarrow> if c = 0x3A then r else u)"

definition remainder :: "jstring \<Rightarrow> jstring" where
  "remainder t = dropWhile isSpace (afterColon (dropWhile isWord (tl t)))"

definition firstLine :: "jstring \<Rightarrow> jstring" where
  "firstLine s = takeWhile (\<lambda>c. \<not> isLineTerminator c) s"

text \<open>
  An instance of the collaborators for the examples: the store is the list of the
  messages with their session keys, every sender is verified, no pairing code is
  right, the external CLI knows no command and the gateway cannot be reached.
\<close>

type_synonym store = "(jstring \<times> conversationMessage) list"

definition sampleEnv :: "store env" where
  "sampleEnv =
     \<lparr>envLower = map lowerUnit,
      envExec = (\<lambda>cmd. ExecFail \<lparr>errMessage = Some (str ''error: unknown command''),
                                  errStdout = None\<rparr>),
      envFetch = (\<lambda>req. FetchThrows (str ''FetchError: connect ECONNREFUSED'')),
      envElapsed = 0,
      gatewayUrl = str ''http://localhost:18789'',
      gatewayToken = None,
      systemPrompt = None,
      model = None,
      clearConversationHistory = (\<lambda>key st. filter (\<lambda>e. fst e \<noteq> key) st),
      addConversationMessage = (\<lambda>key r c st. st @ [(key, \<lparr>role = r, content = c\<rparr>)]),
      getConversationHistory = (\<lambda>key st. map snd (filter (\<lambda>e. fst e = key) st)),
      isUserVerified = (\<lambda>key st. True),
      verifyPairingCode = (\<lambda>key code name st.
        (\<lparr>success = False, resultMessage = str ''invalid code''\<rparr>, st))\<rparr>"

text \<open>Variants of it: the CLI prints its command line back, the CLI cannot be started,
  the CLI prints only blanks.\<close>

definition echoEnv :: "store env" where
  "echoEnv = sampleEnv\<lparr>envExec := (\<lambda>cmd. ExecOk cmd [])\<rparr>"

definition brokenEnv :: "store env" where
  "brokenEnv =
     sampleEnv\<lparr>envExec := (\<lambda>cmd. ExecFail \<lparr>errMessage = Some (str ''spawn ENOENT''),
                                                  errStdout = None\<rparr>)\<rparr>"

definition blankEnv :: "store env" where
  "blankEnv = sampleEnv\<lparr>envExec := (\<lambda>cmd. ExecOk (str ''   '') [])\<rparr>"

text \<open>
  The directive extractor as a recursion over the patterns: each pattern is tried once
  against the current remainder; a match adds the trimmed matched prefix to the
  directives and leaves the remainder without that prefix, trimmed.
\<close>

fun tryPatterns :: "regex list \<Rightarrow> jstring list \<Rightarrow> jstring \<Rightarrow> extracted" where
  "tryPatterns [] ds rest = \<lparr>directives = ds, cleanMessage = rest\<rparr>"
| "tryPatterns (p # ps) ds rest =
     (case regexMatch True p rest of
        None \<Rightarrow> tryPatterns ps ds rest
      | Some m \<Rightarrow> tryPatterns ps (ds @ [trim (whole m)]) (trim (drop (length (whole m)) rest)))"

text \<open>
  What the texts of the option handlers are asked to do. \<open>endsWith\<close> is
  \<open>String.prototype.endsWith\<close>. A text lists exactly the values \<open>vs\<close> when it contains,
  between an opening and a closing delimiter, those values and no others, joined by the
  separator; it ends with the list when the delimiter and the joined values are its
  end. It is a rejection when it begins with the cross mark (U+274C). It confirms a
  value when it ends with a colon, the value, an empty line and the sentence of the
  source that says that the setting applies from the next message.
\<close>

fun endsWith :: "jstring \<Rightarrow> jstring \<Rightarrow> bool" where
  "endsWith [] p = (p = [])"
| "endsWith (c # s) p = (c # s = p \<or> endsWith s p)"

definition listsExactly :: "jstring \<Rightarrow> jstring \<Rightarrow> jstring \<Rightarrow> jstring list \<Rightarrow> jstring \<Rightarrow> bool" where
  "listsExactly t l sep vs r = includesStr t (l @ join sep vs @ r)"

definition endsWithList :: "jstring \<Rightarrow> jstring \<Rightarrow> jstring \<Rightarrow> jstring list \<Rightarrow> bool" where
  "endsWithList t l sep vs = endsWith t (l @ join sep vs)"

definition isRejection :: "jstring \<Rightarrow> bool" where
  "isRejection t = startsWith t [0x274C]"

definition nextMessageNotice :: jstring where
  "nextMessageNotice =
     [0xB2E4, 0xC74C, 0x20, 0xBA54, 0xC2DC, 0xC9C0, 0xBD80, 0xD130, 0x20, 0xC801, 0xC6A9,
     0xB429, 0xB2C8, 0xB2E4, 0x2E]"

definition appliesFromNextMessage :: "jstring \<Rightarrow> bool" where
  "appliesFromNextMessage t = includesStr t nextMessageNotice"

definition confirms :: "jstring \<Rightarrow> jstring \<Rightarrow> bool" where
  "confirms t v = endsWith t (str '': '' @ v @ [0x0A, 0x0A] @ nextMessageNotice)"

text \<open>Two more variants: the request to the gateway times out, the gateway answers with
  status 502.\<close>

definition timeoutEnv :: "store env" where
  "timeoutEnv =
     sampleEnv\<lparr>envFetch := (\<lambda>req. FetchThrows
       (str ''FetchError: network timeout at: http://localhost:18789/v1/chat/completions''))\<rparr>"

definition badGatewayEnv :: "store env" where
  "badGatewayEnv =
     sampleEnv\<lparr>envFetch := (\<lambda>req. FetchReturns
       \<lparr>ok = False, status = 502, bodyText = Inr (str ''Bad Gateway''), bodyContent = Inr None\<rparr>)\<rparr>"

text \<open>A pattern recognises a message as a directive when it matches the message and
  the first directive that the extractor returns is the text it matched.\<close>

definition recognisedBy :: "regex \<Rightarrow> jstring \<Rightarrow> bool" where
  "recognisedBy pat msg =
     (case regexMatch True pat msg of
        None \<Rightarrow> False
      | Some m \<Rightarrow>
          directives (extractDirectives msg) \<noteq> [] \<and>
          hd (directives (extractDirectives msg)) = trim (whole m))"

text \<open>A last variant: no sender is verified.\<close>

definition unverifiedEnv :: "store env" where
  "unverifiedEnv = sampleEnv\<lparr>isUserVerified := (\<lambda>key st. False)\<rparr>"

section \<open>Lemmas on strings\<close>

lemma str_Nil [simp]: "str [] = []"
  by (simp add: str_def)

lemma includesStr_Nil [simp]: "includesStr s []"
  by (cases s) simp_all

lemma includesStr_prefix: "includesStr (p @ b) p"
proof (cases "p @ b")
  case Nil
  then show ?thesis by simp
next
  case (Cons c s)
  have "take (length p) (p @ b) = p"
    by simp
  then show ?thesis
    using Cons by simp
qed

lemma includesStr_middle: "includesStr (a @ p @ b) p"
proof (induction a)
  case Nil
  show ?case by (simp add: includesStr_prefix)
next
  case (Cons x a)
  then show ?case by simp
qed

lemma includesStr_set: "includesStr s p \<Longrightarrow> set p \<subseteq> set s"
proof (induction s)
  case Nil
  then show ?case by simp
next
  case (Cons c s)
  from Cons.prems have "take (length p) (c # s) = p \<or> includesStr s p"
    by simp
  then show ?case
  proof
    assume "take (length p) (c # s) = p"
    then have "set p \<subseteq> set (c # s)"
      by (metis set_take_subset)
    then show ?thesis .
  next
    assume "includesStr s p"
    then show ?thesis using Cons.IH by auto
  qed
qed

lemma trim_Nil [simp]: "trim [] = []"
  by (simp add: trim_def)

lemma trim_trimEnd: "trim s = trimEnd (dropWhile isSpace s)"
  by (simp add: trim_def trimEnd_def)

lemma trimEnd_Nil [simp]: "trimEnd [] = []"
  by (simp add: trimEnd_def)

lemma trimEnd_Cons:
  "trimEnd (c # s) = (if trimEnd s = [] \<and> isSpace c then [] else c # trimEnd s)"
  by (auto simp: trimEnd_def dropWhile_append)

lemma trim_Cons: "\<not> isSpace c \<Longrightarrow> trim (c # s) = c # trimEnd s"
  by (simp add: trim_trimEnd trimEnd_Cons)

lemma trim_space_Cons: "isSpace c \<Longrightarrow> trim (c # s) = trim s"
  by (simp add: trim_def)

section \<open>Lemmas on the matcher\<close>

lemma firstOf_simps [simp]: "firstOf [] = None" "firstOf (x # xs) = Some x"
  by (simp_all add: firstOf_def)

lemma firstOf_append:
  "firstOf (xs @ ys) = (case firstOf xs of Some x \<Rightarrow> Some x | None \<Rightarrow> firstOf ys)"
  by (cases xs) simp_all

lemma firstOf_map: "firstOf (map f xs) = map_option f (firstOf xs)"
  by (cases xs) simp_all

lemma firstOf_concat:
  "firstOf xs = Some x \<Longrightarrow> firstOf (f x) = Some y \<Longrightarrow> firstOf (concat (map f xs)) = Some y"
  by (cases xs) (simp_all add: firstOf_append)

lemma firstOf_starRests: "firstOf (starRests P s) = Some (dropWhile P s)"
  by (induction s) (simp_all add: firstOf_append)

lemma regexMatch_firstOf:
  "regexMatch ic r s =
     map_option (\<lambda>st. \<lparr>whole = take (length s - length (fst st)) s, groups = snd st\<rparr>)
       (firstOf (ms r ic (s, [])))"
  by (simp add: regexMatch_def firstOf_def split: list.splits)

lemma firstOf_Seq:
  "firstOf (ms a ic st) = Some x \<Longrightarrow> firstOf (ms b ic x) = Some y \<Longrightarrow>
   firstOf (ms (Seq a b) ic st) = Some y"
  by (simp add: firstOf_concat)

lemma atomOk_fun [simp]:
  "atomOk ic WordChar = isWord"
  "atomOk ic SpaceChar = isSpace"
  "atomOk ic NonSpaceChar = (\<lambda>c. \<not> isSpace c)"
  "atomOk ic AnyChar = (\<lambda>c. \<not> isLineTerminator c)"
  by (rule ext, simp)+

lemma firstOf_Group:
  "firstOf (ms a ic (s, caps)) = Some (r, caps') \<Longrightarrow>
   firstOf (ms (Group n a) ic (s, caps)) = Some (r, (n, take (length s - length r) s) # caps')"
  by (simp add: firstOf_map)

lemma take_takeWhile_dropWhile: "take (length s - length (dropWhile P s)) s = takeWhile P s"
proof -
  have "length s - length (dropWhile P s) = length (takeWhile P s)"
    by (metis add_diff_cancel_right' length_append takeWhile_dropWhile_id)
  then show ?thesis
    by (metis append_eq_conv_conj takeWhile_dropWhile_id)
qed

section \<open>The command parser, in closed form\<close>

lemma commandPattern_match:
  assumes "commandShape t"
  shows "firstOf (ms commandPattern False (t, [])) =
     Some (dropWhile (\<lambda>c. \<not> isLineTerminator c) (remainder t),
           [(2, firstLine (remainder t)), (1, tokenOf t)])"
proof -
  from assms obtain c r where t: "t = 0x2F # c # r" and w: "isWord c"
    by (auto simp: commandShape_def split: list.splits)
  let ?u = "dropWhile isWord r"
  have g1: "firstOf (ms (Group 1 (Seq (Atom (Lit 0x2F)) (Plus WordChar))) False (t, [])) =
      Some (?u, [(1, tokenOf t)])"
  proof -
    have "firstOf (ms (Seq (Atom (Lit 0x2F)) (Plus WordChar)) False (t, [])) = Some (?u, [])"
      using w by (simp add: t firstOf_map firstOf_starRests)
    then have "firstOf (ms (Group 1 (Seq (Atom (Lit 0x2F)) (Plus WordChar))) False (t, [])) =
        Some (?u, [(1, take (length t - length ?u) t)])"
      by (rule firstOf_Group)
    moreover have "take (length t - length ?u) t = tokenOf t"
    proof -
      have "length t - length ?u = Suc (Suc (length r - length ?u))"
        using length_dropWhile_le [of isWord r] by (simp add: t Suc_diff_le)
      then show ?thesis
        using w by (simp add: t tokenOf_def take_takeWhile_dropWhile)
    qed
    ultimately show ?thesis by simp
  qed
  have opt: "firstOf (ms (Opt (Atom (Lit 0x3A))) False (u, cs)) = Some (afterColon u, cs)"
    for u cs
    by (cases u) (simp_all add: afterColon_def)
  have sp: "firstOf (ms (Star SpaceChar) False (afterColon ?u, cs)) = Some (remainder t, cs)"
    for cs
    using w by (simp add: firstOf_map firstOf_starRests remainder_def t)
  have g2: "firstOf (ms (Group 2 (Star AnyChar)) False (remainder t, cs)) =
      Some (dropWhile (\<lambda>c. \<not> isLineTerminator c) (remainder t),
            (2, firstLine (remainder t)) # cs)" for cs
  proof -
    have "firstOf (ms (Star AnyChar) False (remainder t, cs)) =
        Some (dropWhile (\<lambda>c. \<not> isLineTerminator c) (remainder t), cs)"
      by (simp add: firstOf_map firstOf_starRests)
    then show ?thesis
      by (simp add: firstOf_map firstLine_def take_takeWhile_dropWhile)
  qed
  show ?thesis
    unfolding commandPattern_def seqs.simps
    by (rule firstOf_Seq [OF g1], rule firstOf_Seq [OF opt], rule firstOf_Seq [OF sp], rule g2)
qed

lemma commandPattern_no_match:
  assumes "\<not> commandShape t"
  shows "ms commandPattern False (t, []) = []"
proof (cases t)
  case Nil
  then show ?thesis by (simp add: commandPattern_def)
next
  case (Cons a r)
  show ?thesis
  proof (cases r)
    case Nil
    then show ?thesis using Cons by (simp add: commandPattern_def)
  next
    case (Cons c r')
    then show ?thesis
      using assms \<open>t = a # r\<close> by (simp add: commandPattern_def commandShape_def)
  qed
qed

lemma parseCommand_eq:
  "parseCommand uni msg =
     (let t = trim msg in
      if commandShape t
      then \<lparr>command = toLowerCase uni (tokenOf t), args = trim (firstLine (remainder t))\<rparr>
      else \<lparr>command = toLowerCase uni t, args = []\<rparr>)"
proof (cases "commandShape (trim msg)")
  case True
  then show ?thesis
    by (simp add: parseCommand_def regexMatch_firstOf commandPattern_match groupOf_def)
next
  case False
  then show ?thesis
    by (simp add: parseCommand_def regexMatch_firstOf commandPattern_no_match)
qed

text \<open>The definitions that evaluate \<open>parseCommand\<close> and \<open>isCommand\<close> on a given string.\<close>

lemmas parse_eval = parseCommand_def regexMatch_def commandPattern_def groupOf_def
  trim_def isSpace_def isWord_def isLineTerminator_def toLowerCase_def isPlain_def lowerUnit_def
  str_def isCommand_def startsWith_def

section \<open>Lemmas on \<open>handleCommand\<close>\<close>

lemma COMMANDS_slash:
  "map_of COMMANDS (str ''/'') =
     Some (snd (entry (str ''/'') None (Some (pureHandler (\<lambda>env arguments. slashPrompt)))))"
  by (simp add: COMMANDS_def entry_def str_def)

lemma tryCommand_Return:
  "tryCommand env p sessionKey st = (Return r, st') \<Longrightarrow> r = notHandled \<and> st' = st"
  by (auto simp: tryCommand_def split: option.splits sum.splits if_splits prod.splits)

lemma tryCommand_slash:
  "command p = str ''/'' \<Longrightarrow> tryCommand env p sessionKey st = (Response slashPrompt, st)"
  by (simp add: tryCommand_def COMMANDS_slash entry_def pureHandler_def)

lemma slashPrompt_not_blank: "trim slashPrompt \<noteq> []"
  by (simp add: slashPrompt_def trim_def isSpace_def)

lemma acknowledgement_not_empty: "acknowledgement \<noteq> []"
  by (simp add: acknowledgement_def)

lemma executionError_not_empty: "executionError e \<noteq> []"
  by (simp add: executionError_def)

lemma pair_command:
  "command (parseCommand uni (str ''/pair '' @ a)) = str ''/pair''"
  by (simp add: parseCommand_eq str_def trim_Cons trimEnd_Cons isSpace_def commandShape_def
      isWord_def tokenOf_def toLowerCase_def isPlain_def lowerUnit_def Let_def)

lemma COMMANDS_slash_not_None: "map_of COMMANDS (str ''/'') \<noteq> None"
  by (simp add: COMMANDS_slash)

lemma COMMANDS_status:
  "map_of COMMANDS (str ''/status'') =
     Some (snd (entry (str ''/status'') (Some (str ''clawdbot status'')) None))"
  by (simp add: COMMANDS_def entry_def str_def)

section \<open>Lemmas on the directive extractor\<close>

lemma trimEnd_idem: "trimEnd (trimEnd s) = trimEnd s"
  by (induction s) (simp_all add: trimEnd_Cons)

lemma trim_idem: "trim (trim s) = trim s"
proof -
  define u where "u = dropWhile isSpace s"
  have s: "trim s = trimEnd u"
    by (simp add: trim_trimEnd u_def)
  have "trim (trimEnd u) = trimEnd u"
  proof (cases u)
    case Nil
    then show ?thesis by simp
  next
    case (Cons c v)
    then have "\<not> isSpace c"
      unfolding u_def by (metis hd_dropWhile list.distinct(1) list.sel(1))
    then show ?thesis
      unfolding Cons by (simp add: trim_trimEnd trimEnd_Cons trimEnd_idem)
  qed
  then show ?thesis
    by (simp add: s)
qed

lemma replaceFirst_prefix: "replaceFirst s (take n s) [] = drop n s"
proof (cases s)
  case Nil
  then show ?thesis by simp
next
  case (Cons c t)
  have "take (length (take n s)) s = take n s"
    by (simp add: min_def)
  moreover have "drop (length (take n s)) s = drop n s"
    by (simp add: min_def)
  ultimately show ?thesis
    using Cons by simp
qed

lemma whole_prefix:
  "regexMatch ic r s = Some m \<Longrightarrow> \<exists>n. whole m = take n s"
  by (auto simp: regexMatch_def split: list.splits)

lemma directiveStep_eq:
  "directiveStep acc pattern =
     (case regexMatch True pattern (cleanMessage acc) of
        None \<Rightarrow> acc
      | Some m \<Rightarrow>
          \<lparr>directives = directives acc @ [trim (whole m)],
           cleanMessage = trim (drop (length (whole m)) (cleanMessage acc))\<rparr>)"
proof (cases "regexMatch True pattern (cleanMessage acc)")
  case None
  then show ?thesis by (simp add: directiveStep_def)
next
  case (Some m)
  then obtain n where n: "whole m = take n (cleanMessage acc)"
    using whole_prefix by blast
  have "replaceFirst (cleanMessage acc) (whole m) [] = drop (length (whole m)) (cleanMessage acc)"
    unfolding n using replaceFirst_prefix [of "cleanMessage acc" n] by (simp add: min_def)
  then show ?thesis
    using Some by (simp add: directiveStep_def)
qed

lemma foldl_directiveStep:
  "foldl directiveStep acc ps = tryPatterns ps (directives acc) (cleanMessage acc)"
proof (induction ps arbitrary: acc)
  case Nil
  show ?case by simp
next
  case (Cons p ps)
  have "foldl directiveStep acc (p # ps) =
      tryPatterns ps (directives (directiveStep acc p)) (cleanMessage (directiveStep acc p))"
    by (simp add: Cons.IH)
  also have "\<dots> = tryPatterns (p # ps) (directives acc) (cleanMessage acc)"
    unfolding directiveStep_eq [of acc p] by (simp split: option.splits)
  finally show ?case .
qed

lemma tryPatterns_grows:
  "length ds \<le> length (directives (tryPatterns ps ds rest)) \<and>
   length (directives (tryPatterns ps ds rest)) \<le> length ds + length ps \<and>
   (length (directives (tryPatterns ps ds rest)) = length ds \<longrightarrow>
      tryPatterns ps ds rest = \<lparr>directives = ds, cleanMessage = rest\<rparr>)"
proof (induction ps arbitrary: ds rest)
  case Nil
  show ?case by simp
next
  case (Cons p ps)
  show ?case
  proof (cases "regexMatch True p rest")
    case None
    then show ?thesis using Cons.IH [of ds rest] by simp
  next
    case (Some m)
    then show ?thesis
      using Cons.IH [of "ds @ [trim (whole m)]" "trim (drop (length (whole m)) rest)"] by simp
  qed
qed

lemma tryPatterns_trimmed:
  "directives (tryPatterns ps ds rest) \<noteq> ds \<Longrightarrow>
   trim (cleanMessage (tryPatterns ps ds rest)) = cleanMessage (tryPatterns ps ds rest)"
proof (induction ps arbitrary: ds rest)
  case Nil
  then show ?case by simp
next
  case (Cons p ps)
  show ?case
  proof (cases "regexMatch True p rest")
    case None
    then show ?thesis using Cons by simp
  next
    case (Some m)
    let ?ds = "ds @ [trim (whole m)]" and ?rest = "trim (drop (length (whole m)) rest)"
    have eq: "tryPatterns (p # ps) ds rest = tryPatterns ps ?ds ?rest"
      using Some by simp
    show ?thesis
    proof (cases "directives (tryPatterns ps ?ds ?rest) = ?ds")
      case True
      then have "tryPatterns ps ?ds ?rest = \<lparr>directives = ?ds, cleanMessage = ?rest\<rparr>"
        using tryPatterns_grows [of ?ds ps ?rest] by simp
      then show ?thesis
        unfolding eq by (simp add: trim_idem)
    next
      case False
      then show ?thesis
        unfolding eq using Cons.IH [of ?ds ?rest] by simp
    qed
  qed
qed

text \<open>The definitions that evaluate \<open>extractDirectives\<close> on a given string.\<close>

lemmas extract_eval = str_def trim_def isSpace_def regexMatch_def canon_def words_def
  thinkPattern_def verbosePattern_def reasoningPattern_def elevatedPattern_def modelPattern_def
  execPattern_def directivePatterns_def directiveStep_def extractDirectives_def

lemma toLowerCase_plain: "list_all isPlain s \<Longrightarrow> toLowerCase uni s = map lowerUnit s"
proof -
  assume a: "list_all isPlain s"
  then have tw: "takeWhile isPlain s = s"
    by (simp add: list_all_iff takeWhile_eq_all_conv)
  show ?thesis
    unfolding toLowerCase_def tw using a by simp
qed


section \<open>Lemmas on the option handlers\<close>

lemma notice_after_value:
  "includesStr (x @ y @ [0xA, 0xA] @ nextMessageNotice) nextMessageNotice"
  using includesStr_middle [of "x @ y @ [0xA, 0xA]" nextMessageNotice "[]"] by simp

lemma endsWith_refl [simp]: "endsWith p p"
  by (cases p) simp_all

lemma think_usage: "listsExactly (thinkText uni []) (str '': '') (str '', '') thinkLevels [0x0A]"
  by (simp add: thinkText_def thinkLevels_def listsExactly_def str_def)

lemma verbose_usage:
  "listsExactly (verboseText uni []) (str ''<'') (str ''|'') verboseModes (str ''>'')"
  by (simp add: verboseText_def verboseModes_def listsExactly_def str_def)

lemma reasoning_usage:
  "listsExactly (reasoningText uni []) (str ''<'') (str ''|'') reasoningModes (str ''>'')"
  by (simp add: reasoningText_def reasoningModes_def listsExactly_def str_def)

lemma elevated_usage:
  "listsExactly (elevatedText uni []) (str ''<'') (str ''|'') elevatedModes (str ''>'')"
  by (simp add: elevatedText_def elevatedModes_def listsExactly_def str_def)

lemma tts_usage: "endsWithList (ttsText []) (str '': '') (str '', '') ttsModes"
  by (simp add: ttsText_def ttsModes_def endsWithList_def str_def)

lemma think_reject:
  "arguments \<noteq> [] \<Longrightarrow> toLowerCase uni arguments \<notin> set thinkLevels \<Longrightarrow>
   isRejection (thinkText uni arguments) \<and>
   endsWithList (thinkText uni arguments) (str '': '') (str '', '') thinkLevels"
  by (simp add: thinkText_def isRejection_def endsWithList_def startsWith_def)

lemma verbose_reject:
  "arguments \<noteq> [] \<Longrightarrow> toLowerCase uni arguments \<notin> set verboseModes \<Longrightarrow>
   isRejection (verboseText uni arguments) \<and>
   endsWithList (verboseText uni arguments) (str '': '') (str '', '') verboseModes"
  by (simp add: verboseText_def isRejection_def endsWithList_def startsWith_def)

lemma reasoning_reject:
  "arguments \<noteq> [] \<Longrightarrow> toLowerCase uni arguments \<notin> set reasoningModes \<Longrightarrow>
   isRejection (reasoningText uni arguments) \<and>
   endsWithList (reasoningText uni arguments) (str '': '') (str '', '') reasoningModes"
  by (simp add: reasoningText_def isRejection_def endsWithList_def startsWith_def)

lemma elevated_reject:
  "arguments \<noteq> [] \<Longrightarrow> toLowerCase uni arguments \<notin> set elevatedModes \<Longrightarrow>
   isRejection (elevatedText uni arguments) \<and>
   endsWithList (elevatedText uni arguments) (str '': '') (str '', '') elevatedModes"
  by (simp add: elevatedText_def isRejection_def endsWithList_def startsWith_def)

lemma think_confirm:
  "arguments \<noteq> [] \<Longrightarrow> toLowerCase uni arguments \<in> set thinkLevels \<Longrightarrow>
   confirms (thinkText uni arguments) (toLowerCase uni arguments) \<and>
   \<not> isRejection (thinkText uni arguments)"
  by (simp add: thinkText_def confirms_def nextMessageNotice_def isRejection_def startsWith_def)

lemma verbose_confirm:
  "arguments \<noteq> [] \<Longrightarrow> toLowerCase uni arguments \<in> set verboseModes \<Longrightarrow>
   confirms (verboseText uni arguments) arguments \<and> \<not> isRejection (verboseText uni arguments)"
  by (simp add: verboseText_def confirms_def nextMessageNotice_def isRejection_def startsWith_def)

lemma reasoning_confirm:
  "arguments \<noteq> [] \<Longrightarrow> toLowerCase uni arguments \<in> set reasoningModes \<Longrightarrow>
   confirms (reasoningText uni arguments) arguments \<and>
   \<not> isRejection (reasoningText uni arguments)"
  by (simp add: reasoningText_def confirms_def nextMessageNotice_def isRejection_def
      startsWith_def)

lemma elevated_confirm:
  "arguments \<noteq> [] \<Longrightarrow> toLowerCase uni arguments \<in> set elevatedModes \<Longrightarrow>
   appliesFromNextMessage (elevatedText uni arguments) \<and>
   \<not> isRejection (elevatedText uni arguments)"
  using notice_after_value
  by (simp add: elevatedText_def appliesFromNextMessage_def nextMessageNotice_def
      isRejection_def startsWith_def)

lemma elevated_confirms:
  "arguments \<noteq> [] \<Longrightarrow> toLowerCase uni arguments \<in> set elevatedModes \<Longrightarrow>
   confirms (elevatedText uni arguments) arguments \<and>
   \<not> isRejection (elevatedText uni arguments)"
  by (simp add: elevatedText_def confirms_def nextMessageNotice_def isRejection_def
      startsWith_def)

lemma tts_confirm:
  "arguments \<noteq> [] \<Longrightarrow>
   confirms (ttsText arguments) arguments \<and> \<not> isRejection (ttsText arguments)"
  by (simp add: ttsText_def confirms_def nextMessageNotice_def isRejection_def startsWith_def
      str_def)

section \<open>Lemmas on the bridge\<close>

lemma decimal_digits: "set (decimal n) \<subseteq> {0x30..0x39}"
proof (induction n rule: decimal.induct)
  case (1 n)
  show ?case
  proof (cases "n < 10")
    case True
    then show ?thesis
      by (subst decimal.simps) auto
  next
    case False
    have "n mod 10 < 10"
      by simp
    then have "0x30 + n mod 10 \<in> {0x30..0x39}"
      by auto
    then show ?thesis
      using False 1 by (subst decimal.simps) auto
  qed
qed

lemma gateway_error_not_timeout:
  "\<not> includesStr (str ''Error: Gateway API error: '' @ decimal n) (str ''timeout'') \<and>
   \<not> includesStr (str ''Error: Gateway API error: '' @ decimal n) (str ''ETIMEDOUT'')"
proof -
  let ?e = "str ''Error: Gateway API error: '' @ decimal n"
  have m: "0x6D \<notin> set ?e" "0x4D \<notin> set ?e"
    using decimal_digits [of n] by (auto simp: str_def)
  have "0x6D \<in> set (str ''timeout'')" "0x4D \<in> set (str ''ETIMEDOUT'')"
    by (simp_all add: str_def)
  then show ?thesis
    using m includesStr_set [of ?e "str ''timeout''"] includesStr_set [of ?e "str ''ETIMEDOUT''"]
    by blast
qed

section \<open>Lemmas on the directive patterns\<close>

lemma starRests_self: "s \<in> set (starRests P s)"
  by (cases s) simp_all

lemma ms_Seq_in:
  "x \<in> set (ms a ic st) \<Longrightarrow> y \<in> set (ms b ic x) \<Longrightarrow> y \<in> set (ms (Seq a b) ic st)"
  by auto

lemma ms_Plus_in: "atomOk ic a c \<Longrightarrow> (s, caps) \<in> set (ms (Plus a) ic (c # s, caps))"
  using starRests_self [of s "atomOk ic a"] by auto

lemma ms_Group_in:
  "(r, caps') \<in> set (ms a ic (s, caps)) \<Longrightarrow>
   (r, (n, take (length s - length r) s) # caps') \<in> set (ms (Group n a) ic (s, caps))"
  by force

lemma ms_lits_in:
  "p \<noteq> [] \<Longrightarrow> map canon v = map canon p \<Longrightarrow>
   (rest, caps) \<in> set (ms (lits p) True (v @ rest, caps))"
proof (induction p arbitrary: v rule: lits.induct)
  case 1
  then show ?case by simp
next
  case (2 c)
  then obtain d where "v = [d]" "canon d = canon c"
    by (cases v) auto
  then show ?case by simp
next
  case (3 c d cs)
  then obtain x v' where v: "v = x # v'" and x: "canon x = canon c"
    and v': "map canon v' = map canon (d # cs)"
    by (cases v) auto
  have "(v' @ rest, caps) \<in> set (ms (Atom (Lit c)) True (v @ rest, caps))"
    using x by (simp add: v)
  moreover have "(rest, caps) \<in> set (ms (lits (d # cs)) True (v' @ rest, caps))"
    using 3 v' by simp
  ultimately show ?case
    unfolding lits.simps by (rule ms_Seq_in)
qed

lemma ms_alts_in:
  "r \<in> set rs \<Longrightarrow> x \<in> set (ms r ic st) \<Longrightarrow> x \<in> set (ms (alts rs) ic st)"
  by (induction rs rule: alts.induct) auto

lemma ms_words_in:
  assumes "w \<in> set ws" and "w \<noteq> []" and "map canon v = map canon (str w)"
  shows "(rest, caps) \<in> set (ms (words ws) True (v @ rest, caps))"
proof -
  have "str w \<noteq> []"
    using assms(2) by (simp add: str_def)
  then have a: "(rest, caps) \<in> set (ms (lits (str w)) True (v @ rest, caps))"
    using assms(3) by (rule ms_lits_in)
  have b: "lits (str w) \<in> set (map (\<lambda>w. lits (str w)) ws)"
    using assms(1) by (rule imageI [of w "set ws" "\<lambda>w. lits (str w)", unfolded set_map [symmetric]])
  from ms_alts_in [OF b a] show ?thesis
    by (simp only: words_def)
qed

lemma regexMatch_in: "st \<in> set (ms r ic (s, [])) \<Longrightarrow> regexMatch ic r s \<noteq> None"
  by (cases "ms r ic (s, [])") (simp_all add: regexMatch_def)

lemma mode_pattern_matches:
  assumes "tok \<in> set toks" and "tok \<noteq> []" and "val \<in> set vals" and "val \<noteq> []"
    and "map canon v = map canon (str val)"
  shows "regexMatch True
      (seqs [Atom (Lit 0x2F), Group 1 (words toks), Plus SpaceChar, Group 2 (words vals),
             Plus SpaceChar])
      (0x2F # str tok @ 0x20 # v @ 0x20 # w) \<noteq> None"
proof -
  let ?s1 = "str tok @ 0x20 # v @ 0x20 # w" and ?s2 = "0x20 # v @ 0x20 # w"
  let ?s3 = "v @ 0x20 # w" and ?s4 = "0x20 # w"
  let ?c1 = "[(1, take (length ?s1 - length ?s2) ?s1)]"
  let ?c2 = "(2, take (length ?s3 - length ?s4) ?s3) # ?c1"
  have sp: "atomOk True SpaceChar 0x20"
    by (simp add: isSpace_def)
  have 1: "(?s1, []) \<in> set (ms (Atom (Lit 0x2F)) True (0x2F # ?s1, []))"
    by simp
  have "(?s2, []) \<in> set (ms (words toks) True (?s1, []))"
    using ms_words_in [of tok toks "str tok" ?s2 "[]"] assms(1,2) by simp
  then have 2: "(?s2, ?c1) \<in> set (ms (Group 1 (words toks)) True (?s1, []))"
    by (rule ms_Group_in)
  have 3: "(?s3, ?c1) \<in> set (ms (Plus SpaceChar) True (?s2, ?c1))"
    using sp by (rule ms_Plus_in)
  have "(?s4, ?c1) \<in> set (ms (words vals) True (?s3, ?c1))"
    using ms_words_in [of val vals v ?s4 ?c1] assms(3,4,5) by simp
  then have 4: "(?s4, ?c2) \<in> set (ms (Group 2 (words vals)) True (?s3, ?c1))"
    by (rule ms_Group_in)
  have 5: "(w, ?c2) \<in> set (ms (Plus SpaceChar) True (?s4, ?c2))"
    using sp by (rule ms_Plus_in)
  have "(w, ?c2) \<in> set (ms (seqs [Atom (Lit 0x2F), Group 1 (words toks), Plus SpaceChar,
      Group 2 (words vals), Plus SpaceChar]) True (0x2F # ?s1, []))"
    unfolding seqs.simps
    by (rule ms_Seq_in [OF 1], rule ms_Seq_in [OF 2], rule ms_Seq_in [OF 3],
        rule ms_Seq_in [OF 4], rule 5)
  then show ?thesis
    by (rule regexMatch_in)
qed

lemma canon_lowerUnit: "c < 0x80 \<Longrightarrow> canon (lowerUnit c) = canon c"
  by (auto simp: canon_def lowerUnit_def)

lemma ascii_accepted:
  assumes "list_all (\<lambda>c. c < 0x80) v" and "toLowerCase uni v = str val"
  shows "map canon v = map canon (str val)"
proof -
  have "list_all isPlain v"
    using assms(1) by (simp add: list_all_iff isPlain_def)
  then have "str val = map lowerUnit v"
    using assms(2) by (simp add: toLowerCase_plain)
  then have "map canon (str val) = map (\<lambda>c. canon (lowerUnit c)) v"
    by simp
  also have "\<dots> = map canon v"
    using assms(1) by (simp add: list_all_iff canon_lowerUnit)
  finally show ?thesis by simp
qed

lemma tryPatterns_append: "\<exists>more. directives (tryPatterns ps ds rest) = ds @ more"
proof (induction ps arbitrary: ds rest)
  case Nil
  show ?case by simp
next
  case (Cons p ps)
  show ?case
  proof (cases "regexMatch True p rest")
    case None
    then show ?thesis using Cons [of ds rest] by simp
  next
    case (Some m)
    obtain more where
      "directives (tryPatterns ps (ds @ [trim (whole m)]) (trim (drop (length (whole m)) rest))) =
         (ds @ [trim (whole m)]) @ more"
      using Cons by blast
    then show ?thesis using Some by simp
  qed
qed

lemma tryPatterns_first:
  assumes "regexMatch True p rest = Some m"
  shows "directives (tryPatterns (p # ps) [] rest) \<noteq> [] \<and>
     hd (directives (tryPatterns (p # ps) [] rest)) = trim (whole m)"
proof -
  obtain more where
    "directives (tryPatterns ps [trim (whole m)] (trim (drop (length (whole m)) rest))) =
       [trim (whole m)] @ more"
    using tryPatterns_append by blast
  then show ?thesis
    using assms by simp
qed

lemma extractDirectives_tryPatterns:
  "extractDirectives msg =
     tryPatterns [thinkPattern, verbosePattern, reasoningPattern, elevatedPattern,
                  modelPattern, execPattern] [] msg"
  unfolding extractDirectives_def directivePatterns_def foldl_directiveStep by simp

lemma think_needs_t: "canon c \<noteq> 0x54 \<Longrightarrow> regexMatch True thinkPattern (0x2F # c # t) = None"
  by (simp add: regexMatch_def thinkPattern_def words_def str_def) (simp add: canon_def)

lemma verbose_needs_v: "canon c \<noteq> 0x56 \<Longrightarrow> regexMatch True verbosePattern (0x2F # c # t) = None"
  by (simp add: regexMatch_def verbosePattern_def words_def str_def) (simp add: canon_def)

lemma reasoning_needs_r:
  "canon c \<noteq> 0x52 \<Longrightarrow> regexMatch True reasoningPattern (0x2F # c # t) = None"
  by (simp add: regexMatch_def reasoningPattern_def words_def str_def) (simp add: canon_def)

lemma recognised_think:
  assumes "regexMatch True thinkPattern msg \<noteq> None"
  shows "recognisedBy thinkPattern msg"
proof -
  obtain m where m: "regexMatch True thinkPattern msg = Some m"
    using assms by blast
  show ?thesis
    unfolding recognisedBy_def extractDirectives_tryPatterns m
    using tryPatterns_first [OF m] by simp
qed

lemma recognised_verbose:
  assumes "regexMatch True verbosePattern (0x2F # c # t) \<noteq> None" and "canon c \<noteq> 0x54"
  shows "recognisedBy verbosePattern (0x2F # c # t)"
proof -
  obtain m where m: "regexMatch True verbosePattern (0x2F # c # t) = Some m"
    using assms(1) by blast
  show ?thesis
    unfolding recognisedBy_def extractDirectives_tryPatterns m
    using tryPatterns_first [OF m] think_needs_t [OF assms(2)] by simp
qed

lemma recognised_reasoning:
  assumes "regexMatch True reasoningPattern (0x2F # c # t) \<noteq> None"
    and "canon c \<noteq> 0x54" and "canon c \<noteq> 0x56"
  shows "recognisedBy reasoningPattern (0x2F # c # t)"
proof -
  obtain m where m: "regexMatch True reasoningPattern (0x2F # c # t) = Some m"
    using assms(1) by blast
  show ?thesis
    unfolding recognisedBy_def extractDirectives_tryPatterns m
    using tryPatterns_first [OF m] think_needs_t [OF assms(2)] verbose_needs_v [OF assms(3)]
    by simp
qed

lemma recognised_elevated:
  assumes "regexMatch True elevatedPattern (0x2F # c # t) \<noteq> None"
    and "canon c \<noteq> 0x54" and "canon c \<noteq> 0x56" and "canon c \<noteq> 0x52"
  shows "recognisedBy elevatedPattern (0x2F # c # t)"
proof -
  obtain m where m: "regexMatch True elevatedPattern (0x2F # c # t) = Some m"
    using assms(1) by blast
  show ?thesis
    unfolding recognisedBy_def extractDirectives_tryPatterns m
    using tryPatterns_first [OF m] think_needs_t [OF assms(2)] verbose_needs_v [OF assms(3)]
      reasoning_needs_r [OF assms(4)]
    by simp
qed

lemma accepted_matches:
  assumes "list_all (\<lambda>c. c < 0x80) v" and "toLowerCase uni v \<in> set (map str vals)"
    and "[] \<notin> set vals" and "tok \<in> set toks" and "tok \<noteq> []"
  shows "regexMatch True
      (seqs [Atom (Lit 0x2F), Group 1 (words toks), Plus SpaceChar, Group 2 (words vals),
             Plus SpaceChar])
      (0x2F # str tok @ 0x20 # v @ 0x20 # w) \<noteq> None"
proof -
  obtain val where val: "val \<in> set vals" "toLowerCase uni v = str val"
    using assms(2) by auto
  have "val \<noteq> []"
    using val(1) assms(3) by auto
  moreover have "map canon v = map canon (str val)"
    using assms(1) val(2) by (rule ascii_accepted)
  ultimately show ?thesis
    using mode_pattern_matches [of tok toks val vals v w] assms(4,5) val(1) by simp
qed

section \<open>Lemmas on the webhook server\<close>

lemma space_lower: "isSpace c \<Longrightarrow> lowerUnit c = c \<and> c \<noteq> 0x2F \<and> isPlain c"
  by (auto simp: isSpace_def lowerUnit_def isPlain_def)

lemma isPairing_prefix: "isPairing env (str ''/pair'' @ tail)"
  by (simp add: isPairing_def startsWith_def toLowerCase_def str_def isPlain_def lowerUnit_def)

lemma leading_space_not_pairing: "isSpace c \<Longrightarrow> \<not> isPairing env (c # rest)"
  using space_lower [of c]
  by (simp add: isPairing_def startsWith_def toLowerCase_def str_def)

lemma trim_spaces: "list_all isSpace sp \<Longrightarrow> trim (sp @ s) = trim s"
  by (induction sp) (simp_all add: trim_space_Cons)

lemma handleCommand_trim:
  "trim m = trim m' \<Longrightarrow> handleCommand env m sessionKey st = handleCommand env m' sessionKey st"
  by (simp add: handleCommand_def isCommand_def parseCommand_def)

lemma spaced_pair_not_handled:
  assumes "list_all isSpace sp"
  shows "handleCommand env (sp @ str ''/pair '' @ arguments) sessionKey st = (notHandled, st)"
proof -
  have "handleCommand env (sp @ str ''/pair '' @ arguments) sessionKey st =
      handleCommand env (str ''/pair '' @ arguments) sessionKey st"
    using assms by (intro handleCommand_trim) (simp add: trim_spaces)
  then show ?thesis
    by (simp add: handleCommand_def pair_command Let_def)
qed

lemma sync_branch:
  "fst (handleWithoutCallback env kakaoId utterance st) =
     (if isPairing env utterance then PAIRING
      else if \<not> isUserVerified env kakaoId st then UNVERIFIED
      else if isCommand utterance \<and> handled (fst (handleCommand env utterance kakaoId st)) \<and>
              response (fst (handleCommand env utterance kakaoId st)) \<noteq> None \<and>
              response (fst (handleCommand env utterance kakaoId st)) \<noteq> Some []
           then COMMAND else CHAT)"
proof (cases "isPairing env utterance")
  case True
  then show ?thesis
    by (simp add: handleWithoutCallback_def Let_def split: option.splits prod.splits)
next
  case np: False
  show ?thesis
  proof (cases "isUserVerified env kakaoId st")
    case False
    then show ?thesis
      using np by (simp add: handleWithoutCallback_def)
  next
    case True
    obtain r st1 where r: "handleCommand env utterance kakaoId st = (r, st1)"
      by (cases "handleCommand env utterance kakaoId st")
    obtain a st2 where a: "chat env kakaoId utterance st = (a, st2)"
      by (cases "chat env kakaoId utterance st")
    obtain a' st2' where a': "chat env kakaoId utterance st1 = (a', st2')"
      by (cases "chat env kakaoId utterance st1")
    show ?thesis
      using np True by (simp add: handleWithoutCallback_def r a a' notHandled_def)
  qed
qed

lemma async_branch:
  "fst (processMessageAsync env kakaoId utterance callbackUrl st) =
     (if isPairing env utterance then PAIRING
      else if \<not> isUserVerified env kakaoId st then UNVERIFIED
      else if isCommand utterance \<and> handled (fst (handleCommand env utterance kakaoId st)) \<and>
              response (fst (handleCommand env utterance kakaoId st)) \<noteq> None \<and>
              response (fst (handleCommand env utterance kakaoId st)) \<noteq> Some []
           then COMMAND else CHAT)"
proof (cases "isPairing env utterance")
  case True
  then show ?thesis
    by (simp add: processMessageAsync_def Let_def split: option.splits prod.splits)
next
  case np: False
  show ?thesis
  proof (cases "isUserVerified env kakaoId st")
    case False
    then show ?thesis
      using np by (simp add: processMessageAsync_def)
  next
    case True
    obtain r st1 where r: "handleCommand env utterance kakaoId st = (r, st1)"
      by (cases "handleCommand env utterance kakaoId st")
    obtain a st2 where a: "chat env kakaoId utterance st = (a, st2)"
      by (cases "chat env kakaoId utterance st")
    obtain a' st2' where a': "chat env kakaoId utterance st1 = (a', st2')"
      by (cases "chat env kakaoId utterance st1")
    show ?thesis
      using np True by (simp add: processMessageAsync_def r a a' notHandled_def)
  qed
qed

text \<open>An utterance with a space before a longer token, \<open>/paired x\<close>, when the CLI prints
  its command line back.\<close>

lemma paired_parse:
  "parseCommand (map lowerUnit) (str '' /paired x'') =
     \<lparr>command = str ''/paired'', args = str ''x''\<rparr>"
  by (simp add: parse_eval)

lemma paired_isCommand: "isCommand (str '' /paired x'')"
  by (simp add: parse_eval)

lemma paired_not_key: "map_of COMMANDS (str ''/paired'') = None"
  by (simp add: COMMANDS_def entry_def str_def)

lemma paired_echo:
  "handleCommand echoEnv (str '' /paired x'') (str ''user1'') [] =
     (\<lparr>handled = True, response = Some (str ''clawdbot paired x''), sessionReset = None,
       quickReplies = None\<rparr>, [])"
proof -
  have l: "envLower echoEnv = map lowerUnit"
    by (simp add: echoEnv_def sampleEnv_def)
  have f: "forwardedCommand \<lparr>command = str ''/paired'', args = str ''x''\<rparr> =
      str ''clawdbot paired x''"
    by (simp add: forwardedCommand_def Let_def str_def)
  have r: "runCli echoEnv (str ''clawdbot paired x'') = Inr (str ''clawdbot paired x'')"
    by (simp add: runCli_def echoEnv_def sampleEnv_def str_def trim_def isSpace_def ansiPattern_def)
  have t: "tryCommand echoEnv \<lparr>command = str ''/paired'', args = str ''x''\<rparr> (str ''user1'') [] =
      (Response (str ''clawdbot paired x''), [])"
    by (simp add: tryCommand_def paired_not_key f r)
  have n: "str ''/paired'' \<noteq> str ''/pair''" "str ''/paired'' \<noteq> str ''/''"
      "str ''clawdbot paired x'' \<noteq> []" "trim (str ''clawdbot paired x'') \<noteq> []"
    by (simp_all add: str_def trim_def isSpace_def)
  show ?thesis
    by (simp add: handleCommand_def paired_isCommand l paired_parse t n)
qed

section \<open>Commands that are not in the table\<close>

text \<open>
  C1: for a command whose token is not a key of the command table and is not the
  pairing token, \<open>handleCommand\<close> runs the external command made of the program name
  \<open>clawdbot\<close>, the token without its first character and, only when they are not
  empty, the arguments. If that run throws an error whose message contains
  \<open>not recognized\<close>, \<open>unknown\<close> or \<open>is not\<close>, the result is \<open>{handled: false}\<close>; any
  other error gives a handled result whose text is the fixed error heading of the
  source followed by the message of the error (\<open>undefined\<close> when it has none); an
  output gives a handled result with the output (the fixed acknowledgement of the
  source when the output is blank).
\<close>

theorem unknown_command_forwarded:
  fixes env :: "'st env"
  assumes "isCommand msg"
    and "p = parseCommand (envLower env) msg"
    and "command p \<noteq> str ''/pair''"
    and "map_of (COMMANDS :: (jstring \<times> 'st commandMapping) list) (command p) = None"
  shows "handleCommand env msg sessionKey st =
     (case runCli env (str ''clawdbot '' @ drop 1 (command p) @
                        (if args p = [] then [] else str '' '' @ args p)) of
        Inr r \<Rightarrow>
          (\<lparr>handled = True,
            response = Some
              (if trim r = [] then
                 [0x2705, 0x20, 0xBA85, 0xB839, 0xC5B4, 0xAC00, 0x20, 0xC2E4, 0xD589, 0xB418,
                  0xC5C8, 0xC2B5, 0xB2C8, 0xB2E4, 0x2E]
               else r),
            sessionReset = None, quickReplies = None\<rparr>, st)
      | Inl e \<Rightarrow>
          if \<exists>m. errMessage e = Some m \<and>
               (includesStr m (str ''not recognized'') \<or> includesStr m (str ''unknown'') \<or>
                includesStr m (str ''is not''))
          then (\<lparr>handled = False, response = None, sessionReset = None, quickReplies = None\<rparr>, st)
          else (\<lparr>handled = True,
                 response = Some
                   ([0x274C, 0x20, 0xBA85, 0xB839, 0xC5B4, 0x20, 0xC2E4, 0xD589, 0x20, 0xC911, 0x20,
                  0xC624, 0xB958, 0xAC00, 0x20, 0xBC1C, 0xC0DD, 0xD588, 0xC2B5, 0xB2C8, 0xB2E4,
                  0x2E, 0xA, 0xA] @
                    (case errMessage e of Some m \<Rightarrow> m | None \<Rightarrow> str ''undefined'')),
                 sessionReset = None, quickReplies = None\<rparr>, st))"
proof -
  have ns: "command p \<noteq> str ''/''"
    using assms(4) COMMANDS_slash_not_None [where ?'a = 'st] by auto
  have line: "str ''clawdbot '' @ drop 1 (command p) @
      (if args p = [] then [] else str '' '' @ args p) = forwardedCommand p"
    by (simp add: forwardedCommand_def Let_def)
  have unk: "(\<exists>m. errMessage e = Some m \<and>
               (includesStr m (str ''not recognized'') \<or> includesStr m (str ''unknown'') \<or>
                includesStr m (str ''is not''))) = unknownCommandError e" for e
    by (cases "errMessage e") (simp_all add: unknownCommandError_def)
  have tc: "tryCommand env p sessionKey st =
      (case runCli env (forwardedCommand p) of
         Inr r \<Rightarrow> (Response r, st)
       | Inl e \<Rightarrow> if unknownCommandError e then (Return notHandled, st) else (Throw e, st))"
    using assms(4) by (simp add: tryCommand_def)
  have hc: "handleCommand env msg sessionKey st =
      (case tryCommand env p sessionKey st of
         (Return r, st') \<Rightarrow> (r, st')
       | (Throw e, st') \<Rightarrow>
           (\<lparr>handled = True, response = Some (executionError e), sessionReset = None,
             quickReplies = None\<rparr>, st')
       | (Response r, st') \<Rightarrow>
           (\<lparr>handled = True, response = Some (if trim r = [] then acknowledgement else r),
             sessionReset = None, quickReplies = None\<rparr>, st'))"
    using assms(1,2,3) ns
    by (simp add: handleCommand_def Let_def split: prod.splits tried.splits) 
  have ee: "[0x274C, 0x20, 0xBA85, 0xB839, 0xC5B4, 0x20, 0xC2E4, 0xD589, 0x20, 0xC911, 0x20,
                  0xC624, 0xB958, 0xAC00, 0x20, 0xBC1C, 0xC0DD, 0xD588, 0xC2B5, 0xB2C8, 0xB2E4,
                  0x2E, 0xA, 0xA] @
      (case errMessage e of Some m \<Rightarrow> m | None \<Rightarrow> str ''undefined'') = executionError e" for e
    by (simp add: executionError_def messageText_def)
  have ak: "[0x2705, 0x20, 0xBA85, 0xB839, 0xC5B4, 0xAC00, 0x20, 0xC2E4, 0xD589, 0xB418,
                  0xC5C8, 0xC2B5, 0xB2C8, 0xB2E4, 0x2E] = acknowledgement"
    by (simp add: acknowledgement_def)
  show ?thesis
    unfolding line unk hc tc ee ak
    by (simp add: notHandled_def split: sum.splits)
qed

lemma foo_not_key: "map_of COMMANDS (str ''/foo'') = None"
  by (simp add: COMMANDS_def entry_def str_def)

lemma foo_parse: "parseCommand (map lowerUnit) (str ''/Foo bar'') = \<lparr>command = str ''/foo'', args = str ''bar''\<rparr>"
  by (simp add: parse_eval)

theorem unknown_command_forwarded_witness:
  "isCommand (str ''/Foo bar'') \<and>
   command (parseCommand (envLower sampleEnv) (str ''/Foo bar'')) \<noteq> str ''/pair'' \<and>
   map_of (COMMANDS :: (jstring \<times> store commandMapping) list)
     (command (parseCommand (envLower sampleEnv) (str ''/Foo bar''))) = None \<and>
   handleCommand sampleEnv (str ''/Foo bar'') (str ''user1'') [] =
     (\<lparr>handled = False, response = None, sessionReset = None, quickReplies = None\<rparr>, []) \<and>
   handleCommand echoEnv (str ''/Foo bar'') (str ''user1'') [] =
     (\<lparr>handled = True, response = Some (str ''clawdbot foo bar''), sessionReset = None,
       quickReplies = None\<rparr>, []) \<and>
   handleCommand brokenEnv (str ''/Foo bar'') (str ''user1'') [] =
     (\<lparr>handled = True,
       response = Some
         ([0x274C, 0x20, 0xBA85, 0xB839, 0xC5B4, 0x20, 0xC2E4, 0xD589, 0x20, 0xC911, 0x20,
                  0xC624, 0xB958, 0xAC00, 0x20, 0xBC1C, 0xC0DD, 0xD588, 0xC2B5, 0xB2C8, 0xB2E4,
                  0x2E, 0xA, 0xA] @
          str ''spawn ENOENT''),
       sessionReset = None, quickReplies = None\<rparr>, [])"
proof -
  have c: "isCommand (str ''/Foo bar'')"
    by (simp add: parse_eval)
  have l: "envLower sampleEnv = map lowerUnit" "envLower echoEnv = map lowerUnit"
      "envLower brokenEnv = map lowerUnit"
    by (simp_all add: sampleEnv_def echoEnv_def brokenEnv_def)
  have P: "\<lparr>command = str ''/foo'', args = str ''bar''\<rparr> =
      parseCommand (envLower E) (str ''/Foo bar'')" if "envLower E = map lowerUnit"
    for E :: "store env"
    using that by (simp add: foo_parse)
  have T: "handleCommand E (str ''/Foo bar'') (str ''user1'') [] =
     (case runCli E (str ''clawdbot foo bar'') of
        Inr r \<Rightarrow>
          (\<lparr>handled = True, response = Some (if trim r = [] then acknowledgement else r),
            sessionReset = None, quickReplies = None\<rparr>, [])
      | Inl e \<Rightarrow>
          if \<exists>m. errMessage e = Some m \<and>
               (includesStr m (str ''not recognized'') \<or> includesStr m (str ''unknown'') \<or>
                includesStr m (str ''is not''))
          then (\<lparr>handled = False, response = None, sessionReset = None, quickReplies = None\<rparr>, [])
          else (\<lparr>handled = True, response = Some (executionError e), sessionReset = None,
                 quickReplies = None\<rparr>, []))" if "envLower E = map lowerUnit"
    for E :: "store env"
  proof -
    have k: "map_of (COMMANDS :: (jstring \<times> store commandMapping) list)
        (command \<lparr>command = str ''/foo'', args = str ''bar''\<rparr>) = None"
      by (simp add: foo_not_key)
    have n: "command \<lparr>command = str ''/foo'', args = str ''bar''\<rparr> \<noteq> str ''/pair''"
      by (simp add: str_def)
    have ee: "[0x274C, 0x20, 0xBA85, 0xB839, 0xC5B4, 0x20, 0xC2E4, 0xD589, 0x20, 0xC911, 0x20,
                  0xC624, 0xB958, 0xAC00, 0x20, 0xBC1C, 0xC0DD, 0xD588, 0xC2B5, 0xB2C8, 0xB2E4,
                  0x2E, 0xA, 0xA] @
        (case errMessage e of Some m \<Rightarrow> m | None \<Rightarrow> str ''undefined'') = executionError e" for e
      by (simp add: executionError_def messageText_def)
    have ak: "[0x2705, 0x20, 0xBA85, 0xB839, 0xC5B4, 0xAC00, 0x20, 0xC2E4, 0xD589, 0xB418, 0xC5C8, 0xC2B5, 0xB2C8, 0xB2E4, 0x2E] = acknowledgement"
      by (simp add: acknowledgement_def)
    show ?thesis
      using unknown_command_forwarded [OF c P [OF that], of "str ''user1''" "[]"] k n
      unfolding ee ak
      by (simp add: str_def)
  qed
  have r1: "runCli sampleEnv (str ''clawdbot foo bar'') =
      Inl \<lparr>errMessage = Some (str ''error: unknown command''), errStdout = None\<rparr>"
    by (simp add: runCli_def sampleEnv_def)
  have r2: "runCli echoEnv (str ''clawdbot foo bar'') = Inr (str ''clawdbot foo bar'')"
    by (simp add: runCli_def echoEnv_def sampleEnv_def str_def trim_def isSpace_def ansiPattern_def)
  have r3: "runCli brokenEnv (str ''clawdbot foo bar'') =
      Inl \<lparr>errMessage = Some (str ''spawn ENOENT''), errStdout = None\<rparr>"
    by (simp add: runCli_def brokenEnv_def sampleEnv_def)
  have 1: "handleCommand sampleEnv (str ''/Foo bar'') (str ''user1'') [] =
     (\<lparr>handled = False, response = None, sessionReset = None, quickReplies = None\<rparr>, [])"
    unfolding T [OF l(1)] r1 by (simp add: str_def)
  have 2: "handleCommand echoEnv (str ''/Foo bar'') (str ''user1'') [] =
     (\<lparr>handled = True, response = Some (str ''clawdbot foo bar''), sessionReset = None,
       quickReplies = None\<rparr>, [])"
    unfolding T [OF l(2)] r2 by (simp add: str_def trim_def isSpace_def)
  have 3: "handleCommand brokenEnv (str ''/Foo bar'') (str ''user1'') [] =
     (\<lparr>handled = True,
       response = Some
         ([0x274C, 0x20, 0xBA85, 0xB839, 0xC5B4, 0x20, 0xC2E4, 0xD589, 0x20, 0xC911, 0x20,
                  0xC624, 0xB958, 0xAC00, 0x20, 0xBC1C, 0xC0DD, 0xD588, 0xC2B5, 0xB2C8, 0xB2E4,
                  0x2E, 0xA, 0xA] @
          str ''spawn ENOENT''),
       sessionReset = None, quickReplies = None\<rparr>, [])"
    unfolding T [OF l(3)] r3 by (simp add: str_def executionError_def messageText_def)
  have n: "command (parseCommand (envLower sampleEnv) (str ''/Foo bar'')) \<noteq> str ''/pair''"
    unfolding P [OF l(1), symmetric] by (simp add: str_def)
  have k: "map_of (COMMANDS :: (jstring \<times> store commandMapping) list)
      (command (parseCommand (envLower sampleEnv) (str ''/Foo bar''))) = None"
    unfolding P [OF l(1), symmetric] by (simp add: foo_not_key)
  show ?thesis
    using c n k 1 2 3 by simp
qed

section \<open>The result of \<open>handleCommand\<close>\<close>

text \<open>
  C2: in every result of \<open>handleCommand\<close>, \<open>response\<close> is absent when \<open>handled\<close> is
  false, and is a non-empty string when \<open>handled\<close> is true; a response of the command
  that is empty or only white space is replaced by the fixed acknowledgement, which
  is not blank.
\<close>

theorem handled_has_response:
  "(\<not> handled (fst (handleCommand env msg sessionKey st)) \<longrightarrow>
      response (fst (handleCommand env msg sessionKey st)) = None) \<and>
   (handled (fst (handleCommand env msg sessionKey st)) \<longrightarrow>
      (\<exists>t. response (fst (handleCommand env msg sessionKey st)) = Some t \<and> t \<noteq> [])) \<and>
   (isCommand msg \<and> command (parseCommand (envLower env) msg) \<noteq> str ''/pair'' \<and>
    fst (tryCommand env (parseCommand (envLower env) msg) sessionKey st) = Response r \<and>
    trim r = [] \<longrightarrow>
      response (fst (handleCommand env msg sessionKey st)) = Some acknowledgement) \<and>
   trim acknowledgement \<noteq> []"
proof (intro conjI impI)
  assume "\<not> handled (fst (handleCommand env msg sessionKey st))"
  then show "response (fst (handleCommand env msg sessionKey st)) = None"
    by (auto simp: handleCommand_def Let_def notHandled_def split: prod.splits tried.splits if_splits
        dest: tryCommand_Return)
next
  assume "handled (fst (handleCommand env msg sessionKey st))"
  then show "\<exists>t. response (fst (handleCommand env msg sessionKey st)) = Some t \<and> t \<noteq> []"
    using acknowledgement_not_empty executionError_not_empty
    by (auto simp: handleCommand_def Let_def notHandled_def split: prod.splits tried.splits if_splits
        dest: tryCommand_Return)
next
  assume "isCommand msg \<and> command (parseCommand (envLower env) msg) \<noteq> str ''/pair'' \<and>
    fst (tryCommand env (parseCommand (envLower env) msg) sessionKey st) = Response r \<and>
    trim r = []"
  then show "response (fst (handleCommand env msg sessionKey st)) = Some acknowledgement"
    by (auto simp: handleCommand_def Let_def split: prod.splits tried.splits)
next
  show "trim acknowledgement \<noteq> []"
    by (simp add: acknowledgement_def trim_def isSpace_def)
qed

theorem handled_has_response_witness:
  "handled (fst (handleCommand blankEnv (str ''/status'') (str ''user1'') [])) \<and>
   response (fst (handleCommand blankEnv (str ''/status'') (str ''user1'') [])) =
     Some acknowledgement \<and>
   \<not> handled (fst (handleCommand sampleEnv (str ''hello'') (str ''user1'') [])) \<and>
   response (fst (handleCommand sampleEnv (str ''hello'') (str ''user1'') [])) = None"
proof -
  have c: "isCommand (str ''/status'')"
    by (simp add: parse_eval)
  have P: "parseCommand (envLower blankEnv) (str ''/status'') =
      \<lparr>command = str ''/status'', args = []\<rparr>"
    by (simp add: parse_eval)
  have n: "str ''/status'' \<noteq> str ''/pair''"
    by (simp add: str_def)
  have "runCli blankEnv (str ''clawdbot status'') = Inr []"
    by (simp add: runCli_def blankEnv_def sampleEnv_def str_def trim_def isSpace_def
        ansiPattern_def)
  moreover have "str ''clawdbot status'' \<noteq> []"
    by (simp add: str_def)
  ultimately have t: "tryCommand blankEnv \<lparr>command = str ''/status'', args = []\<rparr>
      (str ''user1'') [] = (Response [], [])"
    by (simp add: tryCommand_def COMMANDS_status entry_def)
  have a: "response (fst (handleCommand blankEnv (str ''/status'') (str ''user1'') [])) =
      Some acknowledgement"
    using handled_has_response [of blankEnv "str ''/status''" "str ''user1''" "[]" "[]"] c n t
    by (simp add: P)
  have h: "handled (fst (handleCommand blankEnv (str ''/status'') (str ''user1'') []))"
    using handled_has_response [of blankEnv "str ''/status''" "str ''user1''" "[]" "[]"] a
    by auto
  have "\<not> isCommand (str ''hello'')"
    by (simp add: parse_eval)
  then have nh: "\<not> handled (fst (handleCommand sampleEnv (str ''hello'') (str ''user1'') []))"
    by (simp add: handleCommand_def notHandled_def)
  then have "response (fst (handleCommand sampleEnv (str ''hello'') (str ''user1'') [])) = None"
    using handled_has_response [of sampleEnv "str ''hello''" "str ''user1''" "[]"] by blast
  with a h nh show ?thesis
    by simp
qed

section \<open>The option handlers\<close>

text \<open>
  C3, as amended: the handlers of think depth, verbosity, reasoning display and
  elevation return, on empty arguments, a usage text that lists the exact set of
  accepted values (between a colon and the end of the line, joined by commas, for the
  think depth; between angle brackets, joined by bars, for the others); on a value
  that the validator does not accept, a rejection that ends with the exact set of
  accepted values; on an accepted value, a confirmation that gives the value and says
  that the setting applies from the next message. The TTS handler returns a usage text
  that ends with the exact list of its options on empty arguments, and the same kind
  of confirmation on every other argument: it rejects nothing.
\<close>

theorem option_handlers:
  "listsExactly (thinkText uni []) (str '': '') (str '', '') thinkLevels [0x0A] \<and>
   listsExactly (verboseText uni []) (str ''<'') (str ''|'') verboseModes (str ''>'') \<and>
   listsExactly (reasoningText uni []) (str ''<'') (str ''|'') reasoningModes (str ''>'') \<and>
   listsExactly (elevatedText uni []) (str ''<'') (str ''|'') elevatedModes (str ''>'') \<and>
   endsWithList (ttsText []) (str '': '') (str '', '') ttsModes \<and>
   (arguments \<noteq> [] \<and> toLowerCase uni arguments \<notin> set thinkLevels \<longrightarrow>
      isRejection (thinkText uni arguments) \<and>
      endsWithList (thinkText uni arguments) (str '': '') (str '', '') thinkLevels) \<and>
   (arguments \<noteq> [] \<and> toLowerCase uni arguments \<notin> set verboseModes \<longrightarrow>
      isRejection (verboseText uni arguments) \<and>
      endsWithList (verboseText uni arguments) (str '': '') (str '', '') verboseModes) \<and>
   (arguments \<noteq> [] \<and> toLowerCase uni arguments \<notin> set reasoningModes \<longrightarrow>
      isRejection (reasoningText uni arguments) \<and>
      endsWithList (reasoningText uni arguments) (str '': '') (str '', '') reasoningModes) \<and>
   (arguments \<noteq> [] \<and> toLowerCase uni arguments \<notin> set elevatedModes \<longrightarrow>
      isRejection (elevatedText uni arguments) \<and>
      endsWithList (elevatedText uni arguments) (str '': '') (str '', '') elevatedModes) \<and>
   (arguments \<noteq> [] \<and> toLowerCase uni arguments \<in> set thinkLevels \<longrightarrow>
      confirms (thinkText uni arguments) (toLowerCase uni arguments) \<and>
      \<not> isRejection (thinkText uni arguments)) \<and>
   (arguments \<noteq> [] \<and> toLowerCase uni arguments \<in> set verboseModes \<longrightarrow>
      confirms (verboseText uni arguments) arguments \<and>
      \<not> isRejection (verboseText uni arguments)) \<and>
   (arguments \<noteq> [] \<and> toLowerCase uni arguments \<in> set reasoningModes \<longrightarrow>
      confirms (reasoningText uni arguments) arguments \<and>
      \<not> isRejection (reasoningText uni arguments)) \<and>
   (arguments \<noteq> [] \<and> toLowerCase uni arguments \<in> set elevatedModes \<longrightarrow>
      confirms (elevatedText uni arguments) arguments \<and>
      \<not> isRejection (elevatedText uni arguments)) \<and>
   (arguments \<noteq> [] \<longrightarrow>
      confirms (ttsText arguments) arguments \<and> \<not> isRejection (ttsText arguments))"
  by (intro conjI impI; (elim conjE)?)
    (simp_all add: think_usage verbose_usage reasoning_usage elevated_usage tts_usage
      think_reject verbose_reject reasoning_reject elevated_reject
      think_confirm verbose_confirm reasoning_confirm elevated_confirms tts_confirm)

theorem option_handlers_witness:
  "str ''ON'' \<noteq> [] \<and> str ''max'' \<noteq> [] \<and> str ''High'' \<noteq> [] \<and>
   toLowerCase (map lowerUnit) (str ''High'') \<in> set thinkLevels \<and>
   confirms (thinkText (map lowerUnit) (str ''High'')) (str ''high'') \<and>
   toLowerCase (map lowerUnit) (str ''ON'') \<in> set verboseModes \<and>
   confirms (verboseText (map lowerUnit) (str ''ON'')) (str ''ON'') \<and>
   toLowerCase (map lowerUnit) (str ''ON'') \<in> set reasoningModes \<and>
   confirms (reasoningText (map lowerUnit) (str ''ON'')) (str ''ON'') \<and>
   toLowerCase (map lowerUnit) (str ''ON'') \<in> set elevatedModes \<and>
   confirms (elevatedText (map lowerUnit) (str ''ON'')) (str ''ON'') \<and>
   toLowerCase (map lowerUnit) (str ''max'') \<notin> set thinkLevels \<and>
   endsWithList (thinkText (map lowerUnit) (str ''max'')) (str '': '') (str '', '') thinkLevels \<and>
   toLowerCase (map lowerUnit) (str ''max'') \<notin> set verboseModes \<and>
   endsWithList (verboseText (map lowerUnit) (str ''max'')) (str '': '') (str '', '') verboseModes \<and>
   toLowerCase (map lowerUnit) (str ''max'') \<notin> set reasoningModes \<and>
   endsWithList (reasoningText (map lowerUnit) (str ''max'')) (str '': '') (str '', '')
     reasoningModes \<and>
   toLowerCase (map lowerUnit) (str ''max'') \<notin> set elevatedModes \<and>
   endsWithList (elevatedText (map lowerUnit) (str ''max'')) (str '': '') (str '', '')
     elevatedModes \<and>
   confirms (ttsText (str ''max'')) (str ''max'')"
proof -
  have v: "str ''ON'' \<noteq> []" "str ''max'' \<noteq> []" "str ''High'' \<noteq> []"
    by (simp_all add: str_def)
  have l: "toLowerCase (map lowerUnit) (str ''High'') = str ''high''"
    by (simp add: toLowerCase_def isPlain_def lowerUnit_def str_def)
  have a: "toLowerCase (map lowerUnit) (str ''High'') \<in> set thinkLevels"
      "toLowerCase (map lowerUnit) (str ''ON'') \<in> set verboseModes"
      "toLowerCase (map lowerUnit) (str ''ON'') \<in> set reasoningModes"
      "toLowerCase (map lowerUnit) (str ''ON'') \<in> set elevatedModes"
    by (simp_all add: toLowerCase_def isPlain_def lowerUnit_def str_def thinkLevels_def
        verboseModes_def reasoningModes_def elevatedModes_def)
  have r: "toLowerCase (map lowerUnit) (str ''max'') \<notin> set thinkLevels"
      "toLowerCase (map lowerUnit) (str ''max'') \<notin> set verboseModes"
      "toLowerCase (map lowerUnit) (str ''max'') \<notin> set reasoningModes"
      "toLowerCase (map lowerUnit) (str ''max'') \<notin> set elevatedModes"
    by (simp_all add: toLowerCase_def isPlain_def lowerUnit_def str_def thinkLevels_def
        verboseModes_def reasoningModes_def elevatedModes_def)
  note h = option_handlers [of "map lowerUnit" "str ''High''"]
  note n = option_handlers [of "map lowerUnit" "str ''ON''"]
  note m = option_handlers [of "map lowerUnit" "str ''max''"]
  have 1: "confirms (thinkText (map lowerUnit) (str ''High'')) (str ''high'')"
    using h v a unfolding l by simp
  have 2: "confirms (verboseText (map lowerUnit) (str ''ON'')) (str ''ON'')"
      "confirms (reasoningText (map lowerUnit) (str ''ON'')) (str ''ON'')"
      "confirms (elevatedText (map lowerUnit) (str ''ON'')) (str ''ON'')"
    using n v a by simp_all
  have 3: "endsWithList (thinkText (map lowerUnit) (str ''max'')) (str '': '') (str '', '')
        thinkLevels"
      "endsWithList (verboseText (map lowerUnit) (str ''max'')) (str '': '') (str '', '')
        verboseModes"
      "endsWithList (reasoningText (map lowerUnit) (str ''max'')) (str '': '') (str '', '')
        reasoningModes"
      "endsWithList (elevatedText (map lowerUnit) (str ''max'')) (str '': '') (str '', '')
        elevatedModes"
      "confirms (ttsText (str ''max'')) (str ''max'')"
    using m v r by simp_all
  show ?thesis
    using v a r 1 2 3 by simp
qed

text \<open>The TTS handler confirms a value that is not among its options: on \<open>loud\<close> it
  returns the confirmation, not a rejection naming the options.\<close>

theorem option_handlers_tts_counterexample:
  "str ''loud'' \<notin> set ttsModes \<and>
   \<not> isRejection (ttsText (str ''loud'')) \<and>
   \<not> includesStr (ttsText (str ''loud'')) (join (str '', '') ttsModes) \<and>
   confirms (ttsText (str ''loud'')) (str ''loud'')"
  by (simp add: ttsText_def ttsModes_def isRejection_def startsWith_def
      confirms_def nextMessageNotice_def str_def)

section \<open>The directive extractor\<close>

text \<open>
  C4, as amended: \<open>extractDirectives\<close> tries each pattern once, in the order think,
  verbose, reasoning, elevated, model, exec, against the current remainder; each match
  adds the trimmed matched prefix to the directives and removes it from the remainder,
  which is then trimmed. So there are at most six directives; when at least one pattern
  matched, \<open>cleanMessage\<close> has no white space at either end; when none matched,
  \<open>cleanMessage\<close> is the message as it came, not trimmed. The message
  \<open>/think high explain this\<close> gives the directive \<open>/think high\<close> and the clean message
  \<open>explain this\<close>.
\<close>

theorem extractDirectives_order:
  "extractDirectives msg =
     tryPatterns [thinkPattern, verbosePattern, reasoningPattern, elevatedPattern,
                  modelPattern, execPattern] [] msg \<and>
   length (directives (extractDirectives msg)) \<le> 6 \<and>
   (directives (extractDirectives msg) = [] \<longrightarrow> cleanMessage (extractDirectives msg) = msg) \<and>
   (directives (extractDirectives msg) \<noteq> [] \<longrightarrow>
      trim (cleanMessage (extractDirectives msg)) = cleanMessage (extractDirectives msg)) \<and>
   extractDirectives (str ''/think high explain this'') =
     \<lparr>directives = [str ''/think high''], cleanMessage = str ''explain this''\<rparr>"
proof -
  let ?ps = "[thinkPattern, verbosePattern, reasoningPattern, elevatedPattern,
              modelPattern, execPattern]"
  have e: "extractDirectives m = tryPatterns ?ps [] m" for m
    unfolding extractDirectives_def directivePatterns_def foldl_directiveStep by simp
  have l: "length (directives (extractDirectives msg)) \<le> 6"
    unfolding e using tryPatterns_grows [of "[]" ?ps msg] by simp
  have n: "directives (extractDirectives msg) = [] \<longrightarrow>
      cleanMessage (extractDirectives msg) = msg"
    unfolding e using tryPatterns_grows [of "[]" ?ps msg] by auto
  have t: "directives (extractDirectives msg) \<noteq> [] \<longrightarrow>
      trim (cleanMessage (extractDirectives msg)) = cleanMessage (extractDirectives msg)"
    unfolding e using tryPatterns_trimmed [of ?ps "[]" msg] by blast
  have x: "extractDirectives (str ''/think high explain this'') =
     \<lparr>directives = [str ''/think high''], cleanMessage = str ''explain this''\<rparr>"
    by (simp add: extract_eval)
  from e [of msg] l n t x show ?thesis
    by blast
qed

theorem extractDirectives_order_witness:
  "directives (extractDirectives (str ''/v on /model opus  tell me '')) \<noteq> [] \<and>
   trim (cleanMessage (extractDirectives (str ''/v on /model opus  tell me ''))) =
     cleanMessage (extractDirectives (str ''/v on /model opus  tell me '')) \<and>
   directives (extractDirectives (str ''hello there'')) = [] \<and>
   cleanMessage (extractDirectives (str ''hello there'')) = str ''hello there''"
proof -
  have 1: "directives (extractDirectives (str ''/v on /model opus  tell me '')) =
      [str ''/v on'', str ''/model opus'']"
    by (simp add: extract_eval)
  have 2: "directives (extractDirectives (str ''hello there'')) = []"
    by (simp add: extract_eval)
  have 3: "directives (extractDirectives (str ''/v on /model opus  tell me '')) \<noteq> [] \<longrightarrow>
      trim (cleanMessage (extractDirectives (str ''/v on /model opus  tell me ''))) =
        cleanMessage (extractDirectives (str ''/v on /model opus  tell me ''))"
    using extractDirectives_order [of "str ''/v on /model opus  tell me ''"] by blast
  have 4: "directives (extractDirectives (str ''hello there'')) = [] \<longrightarrow>
      cleanMessage (extractDirectives (str ''hello there'')) = str ''hello there''"
    using extractDirectives_order [of "str ''hello there''"] by blast
  show ?thesis
    using 1 2 3 4 by simp
qed

text \<open>The clean message of a message without directive keeps its white space: the
  claim that \<open>cleanMessage\<close> is always trimmed fails on \<open>" hello "\<close>.\<close>

theorem extractDirectives_untrimmed_counterexample:
  "cleanMessage (extractDirectives (str '' hello '')) \<noteq>
     trim (cleanMessage (extractDirectives (str '' hello '')))"
  by (simp add: extract_eval)

section \<open>The command parser\<close>




section \<open>The fallback of the bridge\<close>

text \<open>
  C6: \<open>askClawdbot\<close> never passes a failure of the gateway call on. It returns the
  gateway's answer when there is one; when the call throws, it returns the timeout
  text if the string form of the error contains \<open>timeout\<close> or \<open>ETIMEDOUT\<close>, and
  the general failure text otherwise. A request that throws (network error, timeout)
  makes the call throw that error, and a response that is not ok makes it throw
  \<open>Gateway API error: <status>\<close>, which gives the general failure text.
\<close>

theorem askClawdbot_fallback:
  "(askClawdbotGateway env msg sessionKey hist = Inr r \<longrightarrow>
      askClawdbot env msg sessionKey hist = r) \<and>
   (askClawdbotGateway env msg sessionKey hist = Inl e \<longrightarrow>
      askClawdbot env msg sessionKey hist =
        \<lparr>replyText =
           (if includesStr e (str ''timeout'') \<or> includesStr e (str ''ETIMEDOUT'')
            then timeoutFallback else failureFallback),
         metadata = \<lparr>toolsUsed = Some [], processingTime = 0\<rparr>\<rparr>) \<and>
   ((\<forall>req. envFetch env req = FetchThrows e) \<longrightarrow>
      askClawdbotGateway env msg sessionKey hist = Inl e) \<and>
   ((\<forall>req. envFetch env req = FetchReturns resp) \<and> \<not> ok resp \<and> bodyText resp = Inr t \<longrightarrow>
      askClawdbotGateway env msg sessionKey hist =
        Inl (str ''Error: Gateway API error: '' @ decimal (status resp)) \<and>
      replyText (askClawdbot env msg sessionKey hist) = failureFallback) \<and>
   timeoutFallback \<noteq> [] \<and> failureFallback \<noteq> [] \<and> timeoutFallback \<noteq> failureFallback"
proof (intro conjI impI)
  assume "askClawdbotGateway env msg sessionKey hist = Inr r"
  then show "askClawdbot env msg sessionKey hist = r"
    by (simp add: askClawdbot_def)
next
  assume "askClawdbotGateway env msg sessionKey hist = Inl e"
  then show "askClawdbot env msg sessionKey hist =
        \<lparr>replyText =
           (if includesStr e (str ''timeout'') \<or> includesStr e (str ''ETIMEDOUT'')
            then timeoutFallback else failureFallback),
         metadata = \<lparr>toolsUsed = Some [], processingTime = 0\<rparr>\<rparr>"
    by (simp add: askClawdbot_def Let_def)
next
  assume "\<forall>req. envFetch env req = FetchThrows e"
  then show "askClawdbotGateway env msg sessionKey hist = Inl e"
    by (simp add: askClawdbotGateway_def Let_def)
next
  assume a: "(\<forall>req. envFetch env req = FetchReturns resp) \<and> \<not> ok resp \<and> bodyText resp = Inr t"
  then show g: "askClawdbotGateway env msg sessionKey hist =
        Inl (str ''Error: Gateway API error: '' @ decimal (status resp))"
    by (simp add: askClawdbotGateway_def Let_def)
  show "replyText (askClawdbot env msg sessionKey hist) = failureFallback"
    unfolding askClawdbot_def g using gateway_error_not_timeout [of "status resp"]
    by (simp add: Let_def)
next
  show "timeoutFallback \<noteq> []" "failureFallback \<noteq> []" "timeoutFallback \<noteq> failureFallback"
    by (simp_all add: timeoutFallback_def failureFallback_def)
qed

theorem askClawdbot_fallback_witness:
  "replyText (askClawdbot timeoutEnv (str ''hello'') (str ''user1'') []) = timeoutFallback \<and>
   replyText (askClawdbot sampleEnv (str ''hello'') (str ''user1'') []) = failureFallback \<and>
   replyText (askClawdbot badGatewayEnv (str ''hello'') (str ''user1'') []) = failureFallback"
proof -
  let ?t = "str ''FetchError: network timeout at: http://localhost:18789/v1/chat/completions''"
  let ?c = "str ''FetchError: connect ECONNREFUSED''"
  let ?r = "\<lparr>ok = False, status = 502, bodyText = Inr (str ''Bad Gateway''), bodyContent = Inr None\<rparr>"
  have f: "\<forall>req. envFetch timeoutEnv req = FetchThrows ?t"
      "\<forall>req. envFetch sampleEnv req = FetchThrows ?c"
      "\<forall>req. envFetch badGatewayEnv req = FetchReturns ?r"
    by (simp_all add: timeoutEnv_def badGatewayEnv_def sampleEnv_def)
  have i: "includesStr ?t (str ''timeout'')"
      "\<not> includesStr ?c (str ''timeout'')" "\<not> includesStr ?c (str ''ETIMEDOUT'')"
    by (simp_all add: str_def)
  note T = askClawdbot_fallback [of timeoutEnv "str ''hello''" "str ''user1''" "[]" _ ?t]
  note C = askClawdbot_fallback [of sampleEnv "str ''hello''" "str ''user1''" "[]" _ ?c]
  note B = askClawdbot_fallback [of badGatewayEnv "str ''hello''" "str ''user1''" "[]" _ _ ?r
      "str ''Bad Gateway''"]
  have g1: "askClawdbotGateway timeoutEnv (str ''hello'') (str ''user1'') [] = Inl ?t"
    using T [THEN conjunct2, THEN conjunct2, THEN conjunct1] f(1) by simp
  have g2: "askClawdbotGateway sampleEnv (str ''hello'') (str ''user1'') [] = Inl ?c"
    using C [THEN conjunct2, THEN conjunct2, THEN conjunct1] f(2) by simp
  have 1: "replyText (askClawdbot timeoutEnv (str ''hello'') (str ''user1'') []) = timeoutFallback"
    using T [THEN conjunct2, THEN conjunct1] g1 i(1) by simp
  have 2: "replyText (askClawdbot sampleEnv (str ''hello'') (str ''user1'') []) = failureFallback"
    using C [THEN conjunct2, THEN conjunct1] g2 i(2,3) by simp
  have 3: "replyText (askClawdbot badGatewayEnv (str ''hello'') (str ''user1'') []) = failureFallback"
    using B [THEN conjunct2, THEN conjunct2, THEN conjunct2, THEN conjunct1] f(3) by simp
  show ?thesis
    using 1 2 3 by simp
qed

section \<open>The pairing token\<close>

text \<open>
  C7: \<open>handleCommand\<close> reports the pairing token \<open>/pair\<close> as not handled, whatever
  the arguments, the session and the store: whenever the parsed command is \<open>/pair\<close>
  the result is \<open>{handled: false}\<close> and the store is untouched, and every message
  \<open>/pair <arguments>\<close> parses to that command.
\<close>

theorem pair_not_handled:
  "(command (parseCommand (envLower env) msg) = str ''/pair'' \<longrightarrow>
      handleCommand env msg sessionKey st = (notHandled, st)) \<and>
   handleCommand env (str ''/pair '' @ arguments) sessionKey st = (notHandled, st)"
  by (simp add: handleCommand_def pair_command Let_def)

theorem pair_not_handled_witness:
  "command (parseCommand (envLower sampleEnv) (str '' /PAIR: abc123 Jane'')) = str ''/pair'' \<and>
   handleCommand sampleEnv (str '' /PAIR: abc123 Jane'') (str ''user1'') [] = (notHandled, [])"
  using pair_not_handled [of sampleEnv "str '' /PAIR: abc123 Jane''" "str ''user1''" "[]"]
  by (simp add: sampleEnv_def parse_eval)

section \<open>Quick replies\<close>

text \<open>
  C8: the bare marker \<open>/\<close> is the only command whose result carries quick replies.
  The result of \<open>handleCommand\<close> has the list \<open>QUICK_COMMANDS\<close> exactly when the
  message is a command that parses to \<open>/\<close>, and no quick replies otherwise; for \<open>/\<close>
  the result is handled, with the short prompt as its text; the list is the curated
  one in its display order.
\<close>

theorem quick_replies_only_for_slash:
  "quickReplies (fst (handleCommand env msg sessionKey st)) =
     (if isCommand msg \<and> command (parseCommand (envLower env) msg) = str ''/''
      then Some QUICK_COMMANDS else None) \<and>
   (isCommand msg \<and> command (parseCommand (envLower env) msg) = str ''/'' \<longrightarrow>
      handleCommand env msg sessionKey st =
        (\<lparr>handled = True, response = Some slashPrompt, sessionReset = None,
          quickReplies = Some QUICK_COMMANDS\<rparr>, st)) \<and>
   handleCommand env (str ''/'') sessionKey st =
     (\<lparr>handled = True, response = Some slashPrompt, sessionReset = None,
       quickReplies = Some QUICK_COMMANDS\<rparr>, st) \<and>
   map message QUICK_COMMANDS =
     map str [''/status'', ''/help'', ''/model'', ''/clear'', ''/think'', ''/usage'', ''/commands'']"
proof (intro conjI)
  show "quickReplies (fst (handleCommand env msg sessionKey st)) =
     (if isCommand msg \<and> command (parseCommand (envLower env) msg) = str ''/''
      then Some QUICK_COMMANDS else None)"
  proof (cases "isCommand msg \<and> command (parseCommand (envLower env) msg) = str ''/''")
    case True
    then show ?thesis
      using slashPrompt_not_blank
      by (auto simp: handleCommand_def Let_def tryCommand_slash str_def)
  next
    case False
    then show ?thesis
      by (auto simp: handleCommand_def Let_def notHandled_def split: prod.splits tried.splits
          dest: tryCommand_Return)
  qed
next
  show "isCommand msg \<and> command (parseCommand (envLower env) msg) = str ''/'' \<longrightarrow>
      handleCommand env msg sessionKey st =
        (\<lparr>handled = True, response = Some slashPrompt, sessionReset = None,
          quickReplies = Some QUICK_COMMANDS\<rparr>, st)"
    using slashPrompt_not_blank
    by (auto simp: handleCommand_def Let_def tryCommand_slash str_def)
next
  have "isCommand (str ''/'')"
    by (simp add: parse_eval)
  moreover have "command (parseCommand (envLower env) (str ''/'')) = str ''/''"
    by (simp add: parse_eval)
  ultimately show "handleCommand env (str ''/'') sessionKey st =
     (\<lparr>handled = True, response = Some slashPrompt, sessionReset = None,
       quickReplies = Some QUICK_COMMANDS\<rparr>, st)"
    using slashPrompt_not_blank
    by (auto simp: handleCommand_def Let_def tryCommand_slash str_def)
next
  show "map message QUICK_COMMANDS =
     map str [''/status'', ''/help'', ''/model'', ''/clear'', ''/think'', ''/usage'', ''/commands'']"
    by (simp add: QUICK_COMMANDS_def)
qed

theorem quick_replies_only_for_slash_witness:
  "isCommand (str ''  /  '') \<and>
   command (parseCommand (envLower sampleEnv) (str ''  /  '')) = str ''/'' \<and>
   handleCommand sampleEnv (str ''  /  '') (str ''user1'') [] =
     (\<lparr>handled = True, response = Some slashPrompt, sessionReset = None,
       quickReplies = Some QUICK_COMMANDS\<rparr>, []) \<and>
   quickReplies (fst (handleCommand sampleEnv (str ''/help'') (str ''user1'') [])) = None"
proof -
  have c: "isCommand (str ''  /  '') \<and>
      command (parseCommand (envLower sampleEnv) (str ''  /  '')) = str ''/''"
    by (simp add: parse_eval sampleEnv_def)
  have h: "isCommand (str ''/help'') \<and>
      command (parseCommand (envLower sampleEnv) (str ''/help'')) = str ''/help''"
    by (simp add: parse_eval sampleEnv_def)
  show ?thesis
    using c h
      quick_replies_only_for_slash [of sampleEnv "str ''  /  ''" "str ''user1''" "[]"]
      quick_replies_only_for_slash [of sampleEnv "str ''/help''" "str ''user1''" "[]"]
    by (simp add: str_def)
qed

section \<open>Validators and directive patterns\<close>

text \<open>
  C9, as amended: for every value made of ASCII characters that the validator of a
  mode-setting command (think depth, verbosity, reasoning display, elevation) accepts,
  the message made of one of the command's tokens, the value and a following text is
  matched by the corresponding pattern of the directive extractor, and the first
  directive that the extractor returns is what that pattern matched.
\<close>

theorem accepted_value_recognised:
  assumes "list_all (\<lambda>c. c < 0x80) v"
  shows "(toLowerCase uni v \<in> set thinkLevels \<longrightarrow>
       (\<forall>tok \<in> set [''think'', ''thinking'', ''t''].
          recognisedBy thinkPattern (0x2F # str tok @ 0x20 # v @ 0x20 # w))) \<and>
     (toLowerCase uni v \<in> set verboseModes \<longrightarrow>
       (\<forall>tok \<in> set [''verbose'', ''v''].
          recognisedBy verbosePattern (0x2F # str tok @ 0x20 # v @ 0x20 # w))) \<and>
     (toLowerCase uni v \<in> set reasoningModes \<longrightarrow>
       (\<forall>tok \<in> set [''reasoning'', ''reason''].
          recognisedBy reasoningPattern (0x2F # str tok @ 0x20 # v @ 0x20 # w))) \<and>
     (toLowerCase uni v \<in> set elevatedModes \<longrightarrow>
       (\<forall>tok \<in> set [''elevated'', ''elev''].
          recognisedBy elevatedPattern (0x2F # str tok @ 0x20 # v @ 0x20 # w)))"
proof (intro conjI impI ballI)
  fix tok :: string
  assume a: "toLowerCase uni v \<in> set thinkLevels" and t: "tok \<in> set [''think'', ''thinking'', ''t'']"
  have "regexMatch True thinkPattern (0x2F # str tok @ 0x20 # v @ 0x20 # w) \<noteq> None"
    unfolding thinkPattern_def
    by (rule accepted_matches [OF assms a [unfolded thinkLevels_def]]) (use t in auto)
  then show "recognisedBy thinkPattern (0x2F # str tok @ 0x20 # v @ 0x20 # w)"
    by (rule recognised_think)
next
  fix tok :: string
  assume a: "toLowerCase uni v \<in> set verboseModes" and t: "tok \<in> set [''verbose'', ''v'']"
  have m: "regexMatch True verbosePattern (0x2F # str tok @ 0x20 # v @ 0x20 # w) \<noteq> None"
    unfolding verbosePattern_def
    by (rule accepted_matches [OF assms a [unfolded verboseModes_def]]) (use t in auto)
  obtain c r where c: "str tok = c # r" "canon c \<noteq> 0x54"
    using t by (auto simp: str_def canon_def)
  show "recognisedBy verbosePattern (0x2F # str tok @ 0x20 # v @ 0x20 # w)"
    using m recognised_verbose [of c "r @ 0x20 # v @ 0x20 # w"] c by simp
next
  fix tok :: string
  assume a: "toLowerCase uni v \<in> set reasoningModes" and t: "tok \<in> set [''reasoning'', ''reason'']"
  have m: "regexMatch True reasoningPattern (0x2F # str tok @ 0x20 # v @ 0x20 # w) \<noteq> None"
    unfolding reasoningPattern_def
    by (rule accepted_matches [OF assms a [unfolded reasoningModes_def]]) (use t in auto)
  obtain c r where c: "str tok = c # r" "canon c \<noteq> 0x54" "canon c \<noteq> 0x56"
    using t by (auto simp: str_def canon_def)
  show "recognisedBy reasoningPattern (0x2F # str tok @ 0x20 # v @ 0x20 # w)"
    using m recognised_reasoning [of c "r @ 0x20 # v @ 0x20 # w"] c by simp
next
  fix tok :: string
  assume a: "toLowerCase uni v \<in> set elevatedModes" and t: "tok \<in> set [''elevated'', ''elev'']"
  have m: "regexMatch True elevatedPattern (0x2F # str tok @ 0x20 # v @ 0x20 # w) \<noteq> None"
    unfolding elevatedPattern_def
    by (rule accepted_matches [OF assms a [unfolded elevatedModes_def]]) (use t in auto)
  obtain c r where c: "str tok = c # r" "canon c \<noteq> 0x54" "canon c \<noteq> 0x56" "canon c \<noteq> 0x52"
    using t by (auto simp: str_def canon_def)
  show "recognisedBy elevatedPattern (0x2F # str tok @ 0x20 # v @ 0x20 # w)"
    using m recognised_elevated [of c "r @ 0x20 # v @ 0x20 # w"] c by simp
qed

theorem accepted_value_recognised_witness:
  "list_all (\<lambda>c. c < 0x80) (str ''Off'') \<and>
   toLowerCase (map lowerUnit) (str ''Off'') \<in> set thinkLevels \<and>
   toLowerCase (map lowerUnit) (str ''Off'') \<in> set verboseModes \<and>
   toLowerCase (map lowerUnit) (str ''Off'') \<in> set reasoningModes \<and>
   toLowerCase (map lowerUnit) (str ''Off'') \<in> set elevatedModes \<and>
   recognisedBy thinkPattern (str ''/thinking Off and go on'') \<and>
   recognisedBy verbosePattern (str ''/v Off and go on'') \<and>
   recognisedBy reasoningPattern (str ''/reason Off and go on'') \<and>
   recognisedBy elevatedPattern (str ''/elevated Off and go on'')"
proof -
  have a: "list_all (\<lambda>c. c < 0x80) (str ''Off'')"
    by (simp add: str_def)
  have l: "toLowerCase (map lowerUnit) (str ''Off'') = str ''off''"
    by (simp add: toLowerCase_def isPlain_def lowerUnit_def str_def)
  have m: "str ''off'' \<in> set thinkLevels" "str ''off'' \<in> set verboseModes"
      "str ''off'' \<in> set reasoningModes" "str ''off'' \<in> set elevatedModes"
    by (simp_all add: thinkLevels_def verboseModes_def reasoningModes_def elevatedModes_def)
  note T = accepted_value_recognised [OF a, of "map lowerUnit" "str ''and go on''", unfolded l]
  have 1: "recognisedBy thinkPattern (0x2F # str ''thinking'' @ 0x20 # str ''Off'' @ 0x20 # str ''and go on'')"
    using T m by simp
  have 2: "recognisedBy verbosePattern (0x2F # str ''v'' @ 0x20 # str ''Off'' @ 0x20 # str ''and go on'')"
    using T m by simp
  have 3: "recognisedBy reasoningPattern (0x2F # str ''reason'' @ 0x20 # str ''Off'' @ 0x20 # str ''and go on'')"
    using T m by simp
  have 4: "recognisedBy elevatedPattern (0x2F # str ''elevated'' @ 0x20 # str ''Off'' @ 0x20 # str ''and go on'')"
    using T m by simp
  have e: "0x2F # str ''thinking'' @ 0x20 # str ''Off'' @ 0x20 # str ''and go on'' = str ''/thinking Off and go on''"
      "0x2F # str ''v'' @ 0x20 # str ''Off'' @ 0x20 # str ''and go on'' = str ''/v Off and go on''"
      "0x2F # str ''reason'' @ 0x20 # str ''Off'' @ 0x20 # str ''and go on'' = str ''/reason Off and go on''"
      "0x2F # str ''elevated'' @ 0x20 # str ''Off'' @ 0x20 # str ''and go on'' = str ''/elevated Off and go on''"
    by (simp_all add: str_def)
  show ?thesis
    using a m 1 2 3 4 unfolding e l by simp
qed

text \<open>The validator of \<open>/elevated\<close> accepts \<open>as\<close> followed by the Kelvin sign (U+212A),
  whose lower case is \<open>k\<close>; the pattern, which compares canonical forms under the \<open>i\<close>
  flag, does not match it.\<close>

theorem kelvin_sign_counterexample:
  "toLowerCase (map lowerUnit) (str ''as'' @ [0x212A]) \<in> set elevatedModes \<and>
   appliesFromNextMessage (elevatedText (map lowerUnit) (str ''as'' @ [0x212A])) \<and>
   regexMatch True elevatedPattern (str ''/elevated as'' @ [0x212A] @ str '' now'') = None \<and>
   directives (extractDirectives (str ''/elevated as'' @ [0x212A] @ str '' now'')) = [] \<and>
   \<not> recognisedBy elevatedPattern (str ''/elevated as'' @ [0x212A] @ str '' now'')"
proof -
  have 1: "toLowerCase (map lowerUnit) (str ''as'' @ [0x212A]) \<in> set elevatedModes"
    by (simp add: toLowerCase_def isPlain_def lowerUnit_def str_def elevatedModes_def)
  have 2: "regexMatch True elevatedPattern (str ''/elevated as'' @ [0x212A] @ str '' now'') = None"
    by (simp add: regexMatch_def elevatedPattern_def words_def str_def canon_def)
  have 3: "directives (extractDirectives (str ''/elevated as'' @ [0x212A] @ str '' now'')) = []"
    by (simp add: extract_eval)
  have 4: "str ''as'' @ [0x212A] \<noteq> []"
    by simp
  show ?thesis
    using 1 2 3 elevated_confirm [OF 4 1] by (simp add: recognisedBy_def)
qed

section \<open>The pairing branch of the two delivery paths\<close>

text \<open>
  C10, as amended: in the synchronous and in the asynchronous path the pairing branch
  is taken exactly when the raw, untrimmed, lower-cased utterance starts with
  \<open>/pair\<close>. An utterance that merely begins with that prefix, such as \<open>/paired x\<close>,
  goes to pairing. Every utterance that starts with white space bypasses the pairing
  branch. Every utterance that starts with white space and whose parsed command token
  is \<open>/pair\<close> (such as \<open> /pair\<close>, \<open> /PAIR: x\<close> or \<open> /pair abc123\<close>) is reported as not
  handled by \<open>handleCommand\<close>; an unverified sender then gets the authentication prompt,
  and for a verified sender it falls through to chat handling. This is about the parsed
  token, not the prefix: after white space a longer token such as \<open>/paired\<close> is a command
  like any other.
\<close>

theorem pairing_branch:
  "(fst (handleWithoutCallback env kakaoId utterance st) = PAIRING \<longleftrightarrow>
      startsWith (toLowerCase (envLower env) utterance) (str ''/pair'')) \<and>
   (fst (processMessageAsync env kakaoId utterance callbackUrl st) = PAIRING \<longleftrightarrow>
      startsWith (toLowerCase (envLower env) utterance) (str ''/pair'')) \<and>
   fst (handleWithoutCallback env kakaoId (str ''/pair'' @ tail) st) = PAIRING \<and>
   fst (processMessageAsync env kakaoId (str ''/pair'' @ tail) callbackUrl st) = PAIRING \<and>
   fst (handleWithoutCallback env kakaoId (str ''/paired x'') st) = PAIRING \<and>
   fst (processMessageAsync env kakaoId (str ''/paired x'') callbackUrl st) = PAIRING \<and>
   (sp \<noteq> [] \<and> list_all isSpace sp \<longrightarrow>
      \<not> startsWith (toLowerCase (envLower env) (sp @ str ''/pair '' @ arguments)) (str ''/pair'') \<and>
      handleCommand env (sp @ str ''/pair '' @ arguments) kakaoId st = (notHandled, st) \<and>
      fst (handleWithoutCallback env kakaoId (sp @ str ''/pair '' @ arguments) st) =
        (if isUserVerified env kakaoId st then CHAT else UNVERIFIED) \<and>
      fst (processMessageAsync env kakaoId (sp @ str ''/pair '' @ arguments) callbackUrl st) =
        (if isUserVerified env kakaoId st then CHAT else UNVERIFIED)) \<and>
   (isSpace c \<longrightarrow>
      \<not> startsWith (toLowerCase (envLower env) (c # rest)) (str ''/pair'') \<and>
      fst (handleWithoutCallback env kakaoId (c # rest) st) \<noteq> PAIRING \<and>
      fst (processMessageAsync env kakaoId (c # rest) callbackUrl st) \<noteq> PAIRING) \<and>
   (isSpace c \<and> command (parseCommand (envLower env) (c # rest)) = str ''/pair'' \<longrightarrow>
      handleCommand env (c # rest) kakaoId st = (notHandled, st) \<and>
      fst (handleWithoutCallback env kakaoId (c # rest) st) =
        (if isUserVerified env kakaoId st then CHAT else UNVERIFIED) \<and>
      fst (processMessageAsync env kakaoId (c # rest) callbackUrl st) =
        (if isUserVerified env kakaoId st then CHAT else UNVERIFIED))"
proof -
  have p: "isPairing env u = startsWith (toLowerCase (envLower env) u) (str ''/pair'')" for u
    by (simp add: isPairing_def)
  have 1: "fst (handleWithoutCallback env kakaoId utterance st) = PAIRING \<longleftrightarrow>
      isPairing env utterance"
    by (simp add: sync_branch)
  have 2: "fst (processMessageAsync env kakaoId utterance callbackUrl st) = PAIRING \<longleftrightarrow>
      isPairing env utterance"
    by (simp add: async_branch)
  have 3: "fst (handleWithoutCallback env kakaoId (str ''/pair'' @ tail) st) = PAIRING"
      "fst (processMessageAsync env kakaoId (str ''/pair'' @ tail) callbackUrl st) = PAIRING" for tail
    by (simp_all add: sync_branch async_branch isPairing_prefix)
  have e: "str ''/paired x'' = str ''/pair'' @ str ''ed x''"
    by (simp add: str_def)
  have 4: "fst (handleWithoutCallback env kakaoId (str ''/paired x'') st) = PAIRING"
      "fst (processMessageAsync env kakaoId (str ''/paired x'') callbackUrl st) = PAIRING"
    unfolding e by (rule 3)+
  have 5: "\<not> isPairing env (sp @ str ''/pair '' @ arguments) \<and>
      handleCommand env (sp @ str ''/pair '' @ arguments) kakaoId st = (notHandled, st) \<and>
      fst (handleWithoutCallback env kakaoId (sp @ str ''/pair '' @ arguments) st) =
        (if isUserVerified env kakaoId st then CHAT else UNVERIFIED) \<and>
      fst (processMessageAsync env kakaoId (sp @ str ''/pair '' @ arguments) callbackUrl st) =
        (if isUserVerified env kakaoId st then CHAT else UNVERIFIED)"
    if s: "sp \<noteq> []" "list_all isSpace sp"
  proof -
    obtain c sp' where c: "sp = c # sp'" "isSpace c"
      using s by (cases sp) auto
    have n: "\<not> isPairing env (sp @ str ''/pair '' @ arguments)"
      using leading_space_not_pairing [OF c(2), of env "sp' @ str ''/pair '' @ arguments"]
      by (simp add: c(1))
    have h: "handleCommand env (sp @ str ''/pair '' @ arguments) kakaoId st = (notHandled, st)"
      using s(2) by (rule spaced_pair_not_handled)
    show ?thesis
      using n by (simp add: h sync_branch async_branch notHandled_def)
  qed
  have 6: "\<not> isPairing env (c # rest) \<and>
      fst (handleWithoutCallback env kakaoId (c # rest) st) \<noteq> PAIRING \<and>
      fst (processMessageAsync env kakaoId (c # rest) callbackUrl st) \<noteq> PAIRING"
    if "isSpace c"
    using leading_space_not_pairing [OF that, of env rest]
    by (simp add: sync_branch async_branch)
  have 7: "handleCommand env (c # rest) kakaoId st = (notHandled, st) \<and>
      fst (handleWithoutCallback env kakaoId (c # rest) st) =
        (if isUserVerified env kakaoId st then CHAT else UNVERIFIED) \<and>
      fst (processMessageAsync env kakaoId (c # rest) callbackUrl st) =
        (if isUserVerified env kakaoId st then CHAT else UNVERIFIED)"
    if s: "isSpace c" "command (parseCommand (envLower env) (c # rest)) = str ''/pair''"
  proof -
    have h: "handleCommand env (c # rest) kakaoId st = (notHandled, st)"
      using s(2) by (simp add: handleCommand_def Let_def)
    show ?thesis
      using leading_space_not_pairing [OF s(1), of env rest]
      by (simp add: h sync_branch async_branch notHandled_def)
  qed
  have A: "(fst (handleWithoutCallback env kakaoId utterance st) = PAIRING \<longleftrightarrow>
      startsWith (toLowerCase (envLower env) utterance) (str ''/pair'')) \<and>
   (fst (processMessageAsync env kakaoId utterance callbackUrl st) = PAIRING \<longleftrightarrow>
      startsWith (toLowerCase (envLower env) utterance) (str ''/pair'')) \<and>
   fst (handleWithoutCallback env kakaoId (str ''/pair'' @ tail) st) = PAIRING \<and>
   fst (processMessageAsync env kakaoId (str ''/pair'' @ tail) callbackUrl st) = PAIRING \<and>
   fst (handleWithoutCallback env kakaoId (str ''/paired x'') st) = PAIRING \<and>
   fst (processMessageAsync env kakaoId (str ''/paired x'') callbackUrl st) = PAIRING \<and>
   (sp \<noteq> [] \<and> list_all isSpace sp \<longrightarrow>
      \<not> startsWith (toLowerCase (envLower env) (sp @ str ''/pair '' @ arguments)) (str ''/pair'') \<and>
      handleCommand env (sp @ str ''/pair '' @ arguments) kakaoId st = (notHandled, st) \<and>
      fst (handleWithoutCallback env kakaoId (sp @ str ''/pair '' @ arguments) st) =
        (if isUserVerified env kakaoId st then CHAT else UNVERIFIED) \<and>
      fst (processMessageAsync env kakaoId (sp @ str ''/pair '' @ arguments) callbackUrl st) =
        (if isUserVerified env kakaoId st then CHAT else UNVERIFIED))"
    using 1 2 3 [of tail] 4 5 unfolding p by blast
  have B: "(isSpace c \<longrightarrow>
      \<not> startsWith (toLowerCase (envLower env) (c # rest)) (str ''/pair'') \<and>
      fst (handleWithoutCallback env kakaoId (c # rest) st) \<noteq> PAIRING \<and>
      fst (processMessageAsync env kakaoId (c # rest) callbackUrl st) \<noteq> PAIRING) \<and>
   (isSpace c \<and> command (parseCommand (envLower env) (c # rest)) = str ''/pair'' \<longrightarrow>
      handleCommand env (c # rest) kakaoId st = (notHandled, st) \<and>
      fst (handleWithoutCallback env kakaoId (c # rest) st) =
        (if isUserVerified env kakaoId st then CHAT else UNVERIFIED) \<and>
      fst (processMessageAsync env kakaoId (c # rest) callbackUrl st) =
        (if isUserVerified env kakaoId st then CHAT else UNVERIFIED))"
    using 6 7 unfolding p by blast
  show ?thesis
    using A B by blast
qed

lemma spaced_pair_parse:
  "parseCommand (map lowerUnit) (str '' /PAIR: x'') = \<lparr>command = str ''/pair'', args = str ''x''\<rparr>"
  "parseCommand (map lowerUnit) (str '' /pair'') = \<lparr>command = str ''/pair'', args = []\<rparr>"
  by (simp_all add: parse_eval)

theorem pairing_branch_witness:
  "str '' '' \<noteq> [] \<and> list_all isSpace (str '' '') \<and> isSpace 0x20 \<and>
   isUserVerified sampleEnv (str ''user1'') [] \<and>
   fst (handleWithoutCallback sampleEnv (str ''user1'') (str '' /pair abc123'') []) = CHAT \<and>
   fst (processMessageAsync sampleEnv (str ''user1'') (str '' /pair abc123'') (str ''cb'') []) = CHAT \<and>
   startsWith (toLowerCase (envLower sampleEnv) (str ''/Pair abc123'')) (str ''/pair'') \<and>
   fst (handleWithoutCallback sampleEnv (str ''user1'') (str ''/Pair abc123'') []) = PAIRING \<and>
   fst (processMessageAsync sampleEnv (str ''user1'') (str ''/Pair abc123'') (str ''cb'') []) =
     PAIRING \<and>
   command (parseCommand (envLower sampleEnv) (str '' /PAIR: x'')) = str ''/pair'' \<and>
   \<not> startsWith (toLowerCase (envLower sampleEnv) (str '' /PAIR: x'')) (str ''/pair'') \<and>
   fst (handleWithoutCallback sampleEnv (str ''user1'') (str '' /PAIR: x'') []) = CHAT \<and>
   fst (processMessageAsync sampleEnv (str ''user1'') (str '' /PAIR: x'') (str ''cb'') []) = CHAT \<and>
   command (parseCommand (envLower unverifiedEnv) (str '' /pair'')) = str ''/pair'' \<and>
   \<not> isUserVerified unverifiedEnv (str ''user2'') [] \<and>
   fst (handleWithoutCallback unverifiedEnv (str ''user2'') (str '' /pair'') []) = UNVERIFIED \<and>
   fst (processMessageAsync unverifiedEnv (str ''user2'') (str '' /pair'') (str ''cb'') []) =
     UNVERIFIED"
proof -
  have s: "str '' '' \<noteq> []" "list_all isSpace (str '' '')" "isSpace 0x20"
    by (simp_all add: str_def isSpace_def)
  have v: "isUserVerified sampleEnv (str ''user1'') []"
    by (simp add: sampleEnv_def)
  have u: "\<not> isUserVerified unverifiedEnv (str ''user2'') []"
    by (simp add: unverifiedEnv_def)
  have l: "envLower sampleEnv = map lowerUnit" "envLower unverifiedEnv = map lowerUnit"
    by (simp_all add: sampleEnv_def unverifiedEnv_def)
  have e: "str '' '' @ str ''/pair '' @ str ''abc123'' = str '' /pair abc123''"
    by (simp add: str_def)
  have x: "0x20 # str ''/PAIR: x'' = str '' /PAIR: x''"
    by (simp add: str_def)
  have y: "0x20 # str ''/pair'' = str '' /pair''"
    by (simp add: str_def)
  have w: "startsWith (toLowerCase (envLower sampleEnv) (str ''/Pair abc123'')) (str ''/pair'')"
    by (simp add: startsWith_def toLowerCase_def isPlain_def lowerUnit_def str_def)
  have c: "command (parseCommand (envLower sampleEnv) (str '' /PAIR: x'')) = str ''/pair''"
      "command (parseCommand (envLower unverifiedEnv) (str '' /pair'')) = str ''/pair''"
    unfolding l by (simp_all add: spaced_pair_parse)
  note A = pairing_branch [of sampleEnv "str ''user1''" "str ''/Pair abc123''" "[]" "str ''cb''" _
      "str '' ''" "str ''abc123''" "0x20" "str ''/PAIR: x''", unfolded e x]
  note B = pairing_branch [of unverifiedEnv "str ''user2''" _ "[]" "str ''cb''" _ _ _
      "0x20" "str ''/pair''", unfolded y]
  have 1: "fst (handleWithoutCallback sampleEnv (str ''user1'') (str '' /pair abc123'') []) = CHAT"
      "fst (processMessageAsync sampleEnv (str ''user1'') (str '' /pair abc123'') (str ''cb'') []) =
        CHAT"
    using A s v by simp_all
  have 2: "fst (handleWithoutCallback sampleEnv (str ''user1'') (str ''/Pair abc123'') []) = PAIRING"
      "fst (processMessageAsync sampleEnv (str ''user1'') (str ''/Pair abc123'') (str ''cb'') []) =
        PAIRING"
    using A w by simp_all
  have 3: "\<not> startsWith (toLowerCase (envLower sampleEnv) (str '' /PAIR: x'')) (str ''/pair'')"
      "fst (handleWithoutCallback sampleEnv (str ''user1'') (str '' /PAIR: x'') []) = CHAT"
      "fst (processMessageAsync sampleEnv (str ''user1'') (str '' /PAIR: x'') (str ''cb'') []) = CHAT"
    using A s(3) c(1) v by simp_all
  have 4: "fst (handleWithoutCallback unverifiedEnv (str ''user2'') (str '' /pair'') []) = UNVERIFIED"
      "fst (processMessageAsync unverifiedEnv (str ''user2'') (str '' /pair'') (str ''cb'') []) =
        UNVERIFIED"
    using B s(3) c(2) u by simp_all
  show ?thesis
    using s v u w c 1 2 3 4 by simp
qed

text \<open>An unverified sender whose utterance has a space before \<open>/pair\<close> does not
  reach chat handling: both paths stop at the authentication prompt. Nor does a
  verified sender whose utterance has a space before the longer token \<open>/paired\<close>, when
  the CLI answers: both paths reply with the answer of the command.\<close>

theorem pairing_unverified_counterexample:
  "\<not> isUserVerified unverifiedEnv (str ''user1'') [] \<and>
   fst (handleWithoutCallback unverifiedEnv (str ''user1'') (str '' /pair abc123'') []) =
     UNVERIFIED \<and>
   fst (processMessageAsync unverifiedEnv (str ''user1'') (str '' /pair abc123'') (str ''cb'') []) =
     UNVERIFIED \<and>
   fst (handleWithoutCallback unverifiedEnv (str ''user1'') (str '' /pair abc123'') []) \<noteq> CHAT \<and>
   fst (processMessageAsync unverifiedEnv (str ''user1'') (str '' /pair abc123'') (str ''cb'') []) \<noteq>
     CHAT \<and>
   isUserVerified echoEnv (str ''user1'') [] \<and>
   \<not> startsWith (toLowerCase (envLower echoEnv) (str '' /paired x'')) (str ''/pair'') \<and>
   fst (handleWithoutCallback echoEnv (str ''user1'') (str '' /paired x'') []) = COMMAND \<and>
   fst (processMessageAsync echoEnv (str ''user1'') (str '' /paired x'') (str ''cb'') []) = COMMAND"
proof -
  have v: "\<not> isUserVerified unverifiedEnv (str ''user1'') []"
    by (simp add: unverifiedEnv_def)
  have e: "str '' /pair abc123'' = 0x20 # str ''/pair abc123''"
    by (simp add: str_def)
  have n: "\<not> isPairing unverifiedEnv (str '' /pair abc123'')"
    unfolding e by (rule leading_space_not_pairing) (simp add: isSpace_def)
  have 1: "fst (handleWithoutCallback unverifiedEnv (str ''user1'') (str '' /pair abc123'') []) =
      UNVERIFIED"
    "fst (processMessageAsync unverifiedEnv (str ''user1'') (str '' /pair abc123'') (str ''cb'') []) =
      UNVERIFIED"
    using v n by (simp_all add: sync_branch async_branch)
  have w: "isUserVerified echoEnv (str ''user1'') []"
    by (simp add: echoEnv_def sampleEnv_def)
  have e': "str '' /paired x'' = 0x20 # str ''/paired x''"
    by (simp add: str_def)
  have n': "\<not> isPairing echoEnv (str '' /paired x'')"
    unfolding e' by (rule leading_space_not_pairing) (simp add: isSpace_def)
  have s: "str ''clawdbot paired x'' \<noteq> []"
    by (simp add: str_def)
  have 2: "fst (handleWithoutCallback echoEnv (str ''user1'') (str '' /paired x'') []) = COMMAND"
    "fst (processMessageAsync echoEnv (str ''user1'') (str '' /paired x'') (str ''cb'') []) = COMMAND"
    using w n' s by (simp_all add: sync_branch async_branch paired_echo paired_isCommand)
  have 3: "\<not> startsWith (toLowerCase (envLower echoEnv) (str '' /paired x'')) (str ''/pair'')"
    using n' by (simp add: isPairing_def)
  show ?thesis
    using v 1 w 2 3 by simp
qed

end
